theory Spec2Isabelle
  imports Main "HOL-Library.Word"
begin

unbundle bit_operations_syntax

section \<open>The masking layer of \<open>LLVM_Util\<close> (src/liboslexec/llvm_util.cpp)\<close>

text \<open>
  \<open>LLVM_Util\<close> emits straight-line LLVM IR. The masking layer never branches on the
  values it emits, so the embedding gives every emitted instruction its run-time meaning
  at once: an \<open>llvm::Value*\<close> is the value the instruction computes, a stack slot made by
  \<open>op_alloca\<close> is an address of an explicit store, and \<open>CreateLoad\<close>/\<open>CreateStore\<close> read
  and write that store. The C++ members of the class become the fields of a record that
  every operation takes and returns.

  A failed \<open>ASSERT\<close> aborts the process; an operation of the standard library outside its
  contract (\<open>back()\<close> or \<open>pop_back()\<close> of an empty \<open>std::vector\<close>) is undefined behaviour;
  an instruction whose operand types LLVM rejects is invalid IR. Each is a value of
  \<open>error\<close>, and an operation that can meet one returns \<open>error + 'a\<close>.
\<close>

subsection \<open>Values\<close>

text \<open>
  The value kinds that reach the masking layer: the scalars \<open>i1\<close>, \<open>i16\<close> (of the
  mask codec) and \<open>i32\<close> (\<open>type_int\<close>), the wide \<open>i32\<close> vector (\<open>type_wide_int\<close>)
  and the wide \<open>i1\<close> vector (\<open>type_wide_bool\<close>, the lane predicate). A vector is the
  list of its lanes, lane 0 first, and its type carries its lane count.
\<close>

datatype llvm_value =
    Int1 bool
  | Int16 "16 word"
  | Int32 "32 word"
  | WideInt32 "32 word list"
  | WideBool "bool list"

datatype llvm_type = T_i1 | T_i16 | T_i32 | T_vector_i32 nat | T_vector_i1 nat

fun getType :: "llvm_value \<Rightarrow> llvm_type" where
  "getType (Int1 _) = T_i1"
| "getType (Int16 _) = T_i16"
| "getType (Int32 _) = T_i32"
| "getType (WideInt32 lanes) = T_vector_i32 (length lanes)"
| "getType (WideBool lanes) = T_vector_i1 (length lanes)"

datatype error = AssertionFailed | UndefinedBehaviour | InvalidIR

type_synonym 'a result = "error + 'a"

type_synonym ptr = nat

fun isVectorTy :: "llvm_value \<Rightarrow> bool" where
  "isVectorTy (Int1 _) = False"
| "isVectorTy (Int16 _) = False"
| "isVectorTy (Int32 _) = False"
| "isVectorTy (WideInt32 _) = True"
| "isVectorTy (WideBool _) = True"

text \<open>Lane-wise choice: lane \<open>i\<close> of the result is lane \<open>i\<close> of \<open>a\<close> where the condition
  holds and lane \<open>i\<close> of \<open>b\<close> elsewhere.\<close>

fun select_lanes :: "bool list \<Rightarrow> 'a list \<Rightarrow> 'a list \<Rightarrow> 'a list" where
  "select_lanes (c # cs) (a # as) (b # bs) = (if c then a else b) # select_lanes cs as bs"
| "select_lanes _ _ _ = []"

text \<open>\<open>builder().CreateSelect (cond, a, b)\<close>: both operands have one type; the
  condition is an \<open>i1\<close>, or a vector of \<open>i1\<close> with the lane count of the operands, which
  are vectors then. LLVM rejects anything else.\<close>

fun CreateSelect :: "llvm_value \<Rightarrow> llvm_value \<Rightarrow> llvm_value \<Rightarrow> llvm_value result" where
  "CreateSelect (Int1 c) a b =
     (if getType a = getType b then Inr (if c then a else b) else Inl InvalidIR)"
| "CreateSelect (WideBool c) (WideBool a) (WideBool b) =
     (if length a = length c \<and> length b = length c
      then Inr (WideBool (select_lanes c a b)) else Inl InvalidIR)"
| "CreateSelect (WideBool c) (WideInt32 a) (WideInt32 b) =
     (if length a = length c \<and> length b = length c
      then Inr (WideInt32 (select_lanes c a b)) else Inl InvalidIR)"
| "CreateSelect _ _ _ = Inl InvalidIR"

subsection \<open>State of the code generator\<close>

text \<open>\<open>MaskInfo\<close> and \<open>LoopInfo\<close> are declared in the header; their fields are the ones
  the source file initialises (in this order) and reads. The field \<open>mask\<close> is
  \<open>mask_value\<close> here, since \<open>mask\<close> is a constant of the bit-operations library.\<close>

record MaskInfo =
  mask_value :: llvm_value
  negate :: bool
  applied_return_mask_count :: int

record LoopInfo =
  location_of_condition_mask :: ptr
  location_of_continue_mask :: ptr
  break_count :: int
  continue_count :: int

text \<open>
  A \<open>std::vector\<close> used as a stack is a list whose last element is \<open>back()\<close> and whose
  first is \<open>front()\<close>. \<open>m_vector_width\<close> is \<open>SimdLaneCount\<close>, a constant of a header that
  is taken as a parameter. \<open>memory\<close> and \<open>next_alloca\<close> are the store of the generated
  function: what each address holds and the next unused address. The counters are C++
  \<open>int\<close>s (32 bits on the targets of this code generator), held as integers; an
  increment that would leave the range of \<open>int\<close> is a signed overflow, which is
  undefined behaviour (\<open>increment_int\<close> below).
\<close>

record LLVM_Util =
  m_vector_width :: nat
  m_supports_native_bit_masks :: bool
  m_mask_stack :: "MaskInfo list"
  m_enable_masking_stack :: "bool list"
  m_alloca_for_modified_mask_stack :: "ptr list"
  m_masked_return_count_stack :: "int list"
  m_masked_loop_stack :: "LoopInfo list"
  m_masked_exit_count :: int
  memory :: "ptr \<Rightarrow> llvm_value"
  next_alloca :: ptr

text \<open>\<open>type_wide_bool()\<close> is the vector of \<open>m_vector_width\<close> lanes of \<open>i1\<close>.\<close>

definition type_wide_bool :: "LLVM_Util \<Rightarrow> llvm_type" where
  "type_wide_bool st = T_vector_i1 (m_vector_width st)"

definition type_int :: llvm_type where
  "type_int = T_i32"

definition wide_constant_bool :: "LLVM_Util \<Rightarrow> bool \<Rightarrow> llvm_value" where
  "wide_constant_bool st i = WideBool (replicate (m_vector_width st) i)"

definition op_load :: "ptr \<Rightarrow> LLVM_Util \<Rightarrow> llvm_value" where
  "op_load p st = memory st p"

definition CreateStore :: "llvm_value \<Rightarrow> ptr \<Rightarrow> LLVM_Util \<Rightarrow> LLVM_Util" where
  "CreateStore val p st = st\<lparr>memory := (memory st)(p := val)\<rparr>"

text \<open>\<open>op_alloca\<close>: a new stack slot; what it holds before the first store is whatever
  the store has there.\<close>

definition op_alloca :: "LLVM_Util \<Rightarrow> ptr \<times> LLVM_Util" where
  "op_alloca st = (next_alloca st, st\<lparr>next_alloca := Suc (next_alloca st)\<rparr>)"

subsection \<open>The masking-enabled flag stack and the masked store\<close>

definition push_masking_enabled :: "bool \<Rightarrow> LLVM_Util \<Rightarrow> LLVM_Util" where
  "push_masking_enabled enabled st =
     st\<lparr>m_enable_masking_stack := m_enable_masking_stack st @ [enabled]\<rparr>"

definition pop_masking_enabled :: "LLVM_Util \<Rightarrow> LLVM_Util result" where
  "pop_masking_enabled st =
     (if m_enable_masking_stack st = [] then Inl AssertionFailed
      else Inr (st\<lparr>m_enable_masking_stack := butlast (m_enable_masking_stack st)\<rparr>))"

definition op_store :: "llvm_value \<Rightarrow> ptr \<Rightarrow> LLVM_Util \<Rightarrow> LLVM_Util result" where
  "op_store val p st =
     (if m_mask_stack st = [] \<or> isVectorTy val = False \<or> m_enable_masking_stack st = []
         \<or> last (m_enable_masking_stack st) = False
      then Inr (CreateStore val p st)
      else
        let mi = last (m_mask_stack st);
            previous_value = op_load p st
        in if negate mi = False
           then (case CreateSelect (mask_value mi) val previous_value of
                   Inl e \<Rightarrow> Inl e
                 | Inr blended_value \<Rightarrow> Inr (CreateStore blended_value p st))
           else (case CreateSelect (mask_value mi) previous_value val of
                   Inl e \<Rightarrow> Inl e
                 | Inr blended_value \<Rightarrow> Inr (CreateStore blended_value p st)))"

text \<open>The three calls every write to a persistent mask slot makes:
  \<open>push_masking_enabled(false); op_store(val, ptr); pop_masking_enabled();\<close>\<close>

definition store_masking_disabled :: "llvm_value \<Rightarrow> ptr \<Rightarrow> LLVM_Util \<Rightarrow> LLVM_Util result" where
  "store_masking_disabled val p st =
     (case op_store val p (push_masking_enabled False st) of
        Inl e \<Rightarrow> Inl e
      | Inr st' \<Rightarrow> pop_masking_enabled st')"

subsection \<open>The mask scope stack\<close>

definition push_back_mask :: "MaskInfo \<Rightarrow> LLVM_Util \<Rightarrow> LLVM_Util" where
  "push_back_mask mi st = st\<lparr>m_mask_stack := m_mask_stack st @ [mi]\<rparr>"

definition push_mask :: "llvm_value \<Rightarrow> bool \<Rightarrow> bool \<Rightarrow> LLVM_Util \<Rightarrow> LLVM_Util result" where
  "push_mask m neg absolute st =
     (if getType m \<noteq> type_wide_bool st then Inl AssertionFailed
      else if m_mask_stack st = []
      then Inr (push_back_mask \<lparr>mask_value = m, negate = neg, applied_return_mask_count = 0\<rparr> st)
      else
        let mi = last (m_mask_stack st);
            prev_mask = mask_value mi;
            prev_negate = negate mi;
            applied = (if absolute then 0 else applied_return_mask_count mi)
        in if prev_negate = False
           then if neg = False
                then (case (if absolute then Inr m else CreateSelect prev_mask m prev_mask) of
                        Inl e \<Rightarrow> Inl e
                      | Inr blended_mask \<Rightarrow>
                          Inr (push_back_mask \<lparr>mask_value = blended_mask, negate = False,
                                 applied_return_mask_count = applied\<rparr> st))
                else if absolute then Inl AssertionFailed
                else (case CreateSelect m (wide_constant_bool st False) prev_mask of
                        Inl e \<Rightarrow> Inl e
                      | Inr blended_mask \<Rightarrow>
                          Inr (push_back_mask \<lparr>mask_value = blended_mask, negate = False,
                                 applied_return_mask_count = applied\<rparr> st))
           else if neg = False
                then (case (if absolute then Inr m
                            else CreateSelect prev_mask (wide_constant_bool st False) m) of
                        Inl e \<Rightarrow> Inl e
                      | Inr blended_mask \<Rightarrow>
                          Inr (push_back_mask \<lparr>mask_value = blended_mask, negate = False,
                                 applied_return_mask_count = applied\<rparr> st))
                else if absolute then Inl AssertionFailed
                else (case CreateSelect prev_mask prev_mask m of
                        Inl e \<Rightarrow> Inl e
                      | Inr blended_mask \<Rightarrow>
                          Inr (push_back_mask \<lparr>mask_value = blended_mask, negate = True,
                                 applied_return_mask_count = applied\<rparr> st)))"

definition pop_mask :: "LLVM_Util \<Rightarrow> LLVM_Util result" where
  "pop_mask st =
     (if m_mask_stack st = [] then Inl AssertionFailed
      else Inr (st\<lparr>m_mask_stack := butlast (m_mask_stack st)\<rparr>))"

definition current_mask :: "LLVM_Util \<Rightarrow> llvm_value result" where
  "current_mask st =
     (if m_mask_stack st = [] then Inl AssertionFailed
      else
        let mi = last (m_mask_stack st)
        in if negate mi
           then CreateSelect (mask_value mi) (wide_constant_bool st False)
                  (wide_constant_bool st True)
           else Inr (mask_value mi))"

subsection \<open>Function and loop scopes\<close>

definition push_function_mask :: "llvm_value \<Rightarrow> LLVM_Util \<Rightarrow> LLVM_Util result" where
  "push_function_mask startMaskValue st =
     (let (slot, st1) = op_alloca st;
          st2 = st1\<lparr>m_alloca_for_modified_mask_stack :=
                      m_alloca_for_modified_mask_stack st1 @ [slot]\<rparr>;
          loc_of_modified_mask = last (m_alloca_for_modified_mask_stack st2)
      in case store_masking_disabled startMaskValue loc_of_modified_mask st2 of
           Inl e \<Rightarrow> Inl e
         | Inr st3 \<Rightarrow>
             push_mask startMaskValue False True
               (st3\<lparr>m_masked_return_count_stack := m_masked_return_count_stack st3 @ [0]\<rparr>))"

definition masked_return_count :: "LLVM_Util \<Rightarrow> int result" where
  "masked_return_count st =
     (if m_masked_return_count_stack st = [] then Inl AssertionFailed
      else Inr (last (m_masked_return_count_stack st)))"

definition masked_exit_count :: "LLVM_Util \<Rightarrow> int" where
  "masked_exit_count st = m_masked_exit_count st"

definition pop_function_mask :: "LLVM_Util \<Rightarrow> LLVM_Util result" where
  "pop_function_mask st =
     (case pop_mask st of
        Inl e \<Rightarrow> Inl e
      | Inr st1 \<Rightarrow>
          if m_alloca_for_modified_mask_stack st1 = [] then Inl AssertionFailed
          else
            let st2 = st1\<lparr>m_alloca_for_modified_mask_stack :=
                            butlast (m_alloca_for_modified_mask_stack st1)\<rparr>
            in if m_masked_return_count_stack st2 = [] then Inl AssertionFailed
               else Inr (st2\<lparr>m_masked_return_count_stack :=
                                butlast (m_masked_return_count_stack st2)\<rparr>))"

definition push_masked_loop :: "ptr \<Rightarrow> ptr \<Rightarrow> LLVM_Util \<Rightarrow> LLVM_Util" where
  "push_masked_loop loc_cond loc_continue st =
     st\<lparr>m_masked_loop_stack := m_masked_loop_stack st @
          [\<lparr>location_of_condition_mask = loc_cond, location_of_continue_mask = loc_continue,
            break_count = 0, continue_count = 0\<rparr>]\<rparr>"

definition masked_break_count :: "LLVM_Util \<Rightarrow> int" where
  "masked_break_count st =
     (if m_masked_loop_stack st = [] then 0
      else break_count (last (m_masked_loop_stack st)))"

definition masked_continue_count :: "LLVM_Util \<Rightarrow> int" where
  "masked_continue_count st =
     (if m_masked_loop_stack st = [] then 0
      else continue_count (last (m_masked_loop_stack st)))"

text \<open>\<open>pop_masked_loop\<close> calls \<open>pop_back()\<close> with no check before it.\<close>

definition pop_masked_loop :: "LLVM_Util \<Rightarrow> LLVM_Util result" where
  "pop_masked_loop st =
     (if m_masked_loop_stack st = [] then Inl UndefinedBehaviour
      else Inr (st\<lparr>m_masked_loop_stack := butlast (m_masked_loop_stack st)\<rparr>))"

text \<open>The state of a fresh \<open>LLVM_Util\<close>: every stack empty, the exit counter 0.\<close>

definition new_LLVM_Util :: "nat \<Rightarrow> bool \<Rightarrow> LLVM_Util" where
  "new_LLVM_Util width native =
     \<lparr>m_vector_width = width, m_supports_native_bit_masks = native,
      m_mask_stack = [], m_enable_masking_stack = [],
      m_alloca_for_modified_mask_stack = [], m_masked_return_count_stack = [],
      m_masked_loop_stack = [], m_masked_exit_count = 0,
      memory = (\<lambda>_. Int32 0), next_alloca = 0\<rparr>"

subsection \<open>Masked control transfers and the deferred fold\<close>

text \<open>\<open>++c\<close> and \<open>c++\<close> on a C++ \<open>int\<close>: one more, unless the result is not an \<open>int\<close>.\<close>

definition INT_MAX :: int where
  "INT_MAX = 2147483647"

definition increment_int :: "int \<Rightarrow> int result" where
  "increment_int c = (if c + 1 > INT_MAX then Inl UndefinedBehaviour else Inr (c + 1))"

text \<open>Assignment through the reference \<open>v.back()\<close>.\<close>

definition replace_back :: "'a \<Rightarrow> 'a list \<Rightarrow> 'a list" where
  "replace_back x xs = butlast xs @ [x]"

definition apply_return_to_mask_stack :: "LLVM_Util \<Rightarrow> LLVM_Util result" where
  "apply_return_to_mask_stack st =
     (if m_mask_stack st = [] then Inl AssertionFailed
      else if m_masked_return_count_stack st = [] then Inl UndefinedBehaviour
      else
        let mi = last (m_mask_stack st);
            masked_return_count = last (m_masked_return_count_stack st)
        in if masked_return_count > applied_return_mask_count mi
           then
             let existing_mask = mask_value mi
             in if m_alloca_for_modified_mask_stack st = [] then Inl AssertionFailed
                else
                  let loc_of_return_mask = last (m_alloca_for_modified_mask_stack st);
                      rs_mask = op_load loc_of_return_mask st
                  in case (if negate mi
                           then CreateSelect rs_mask existing_mask (wide_constant_bool st True)
                           else CreateSelect rs_mask existing_mask rs_mask) of
                       Inl e \<Rightarrow> Inl e
                     | Inr new_mask \<Rightarrow>
                         Inr (st\<lparr>m_mask_stack :=
                                replace_back
                                  (mi\<lparr>mask_value := new_mask,
                                      applied_return_mask_count := masked_return_count\<rparr>)
                                  (m_mask_stack st)\<rparr>)
           else Inr st)"

definition op_masked_return :: "LLVM_Util \<Rightarrow> LLVM_Util result" where
  "op_masked_return st =
     (if m_mask_stack st = [] then Inl AssertionFailed
      else
        let mi = last (m_mask_stack st)
        in if m_alloca_for_modified_mask_stack st = [] then Inl AssertionFailed
           else
             let loc_of_function_mask = last (m_alloca_for_modified_mask_stack st);
                 function_mask = op_load loc_of_function_mask st;
                 return_from_mask = mask_value mi
             in case (if negate mi
                      then CreateSelect return_from_mask function_mask return_from_mask
                      else CreateSelect return_from_mask (wide_constant_bool st False)
                             function_mask) of
                  Inl e \<Rightarrow> Inl e
                | Inr modifiedMask \<Rightarrow>
                    (case store_masking_disabled modifiedMask loc_of_function_mask st of
                       Inl e \<Rightarrow> Inl e
                     | Inr st1 \<Rightarrow>
                         if m_masked_return_count_stack st1 = [] then Inl AssertionFailed
                         else (case increment_int (last (m_masked_return_count_stack st1)) of
                                 Inl e \<Rightarrow> Inl e
                               | Inr c \<Rightarrow>
                                   Inr (st1\<lparr>m_masked_return_count_stack :=
                                          replace_back c (m_masked_return_count_stack st1)\<rparr>))))"

definition op_masked_exit :: "LLVM_Util \<Rightarrow> LLVM_Util result" where
  "op_masked_exit st =
     (if m_mask_stack st = [] then Inl AssertionFailed
      else
        let mi = last (m_mask_stack st);
            exit_from_mask = mask_value mi
        in if m_alloca_for_modified_mask_stack st = [] then Inl AssertionFailed
           else
             let loc_of_shader_mask = hd (m_alloca_for_modified_mask_stack st);
                 shader_mask = op_load loc_of_shader_mask st
             in case (if negate mi
                      then CreateSelect exit_from_mask shader_mask exit_from_mask
                      else CreateSelect exit_from_mask (wide_constant_bool st False)
                             shader_mask) of
                  Inl e \<Rightarrow> Inl e
                | Inr modifiedMask \<Rightarrow>
                    (case store_masking_disabled modifiedMask loc_of_shader_mask st of
                       Inl e \<Rightarrow> Inl e
                     | Inr st1 \<Rightarrow>
                         (case (if length (m_alloca_for_modified_mask_stack st1) > 1
                                then
                                  let loc_of_function_mask =
                                        last (m_alloca_for_modified_mask_stack st1);
                                      function_mask = op_load loc_of_function_mask st1
                                  in case (if negate mi
                                           then CreateSelect exit_from_mask function_mask
                                                  exit_from_mask
                                           else CreateSelect exit_from_mask
                                                  (wide_constant_bool st1 False) function_mask) of
                                       Inl e \<Rightarrow> Inl e
                                     | Inr modifiedMask2 \<Rightarrow>
                                         store_masking_disabled modifiedMask2
                                           loc_of_function_mask st1
                                else Inr st1) of
                            Inl e \<Rightarrow> Inl e
                          | Inr st2 \<Rightarrow>
                              (case increment_int (m_masked_exit_count st2) of
                                 Inl e \<Rightarrow> Inl e
                               | Inr n \<Rightarrow>
                                   let st3 = st2\<lparr>m_masked_exit_count := n\<rparr>
                                   in if m_masked_return_count_stack st3 = []
                                      then Inl AssertionFailed
                                      else (case increment_int
                                                   (last (m_masked_return_count_stack st3)) of
                                              Inl e \<Rightarrow> Inl e
                                            | Inr c \<Rightarrow>
                                                Inr (st3\<lparr>m_masked_return_count_stack :=
                                                       replace_back c
                                                         (m_masked_return_count_stack st3)\<rparr>))))))"

subsection \<open>The predicate/integer codec\<close>

text \<open>
  The casts and the splat of the codec, at the operand types the two functions reach
  them with (their opening assertions fix the type of the argument). A bitcast keeps
  the bits, so it needs the same number of bits on both sides: a vector of \<open>i1\<close> is an
  \<open>i16\<close> only when it has 16 lanes, and then lane \<open>i\<close> is bit \<open>i\<close> (the x86 targets of
  this code generator are little-endian). \<open>widen_value\<close> is
  \<open>CreateVectorSplat (m_vector_width, val)\<close>; \<open>wide_constant (int)\<close> is the splat of a
  32-bit constant.
\<close>

definition CreateBitCast_wide_bool_to_i16 :: "bool list \<Rightarrow> 16 word result" where
  "CreateBitCast_wide_bool_to_i16 lanes =
     (if length lanes = 16 then Inr (horner_sum of_bool 2 lanes) else Inl InvalidIR)"

definition CreateBitCast_i16_to_wide_bool :: "LLVM_Util \<Rightarrow> 16 word \<Rightarrow> llvm_value result" where
  "CreateBitCast_i16_to_wide_bool st w =
     (if type_wide_bool st = T_vector_i1 16 then Inr (WideBool (map (bit w) [0..<16]))
      else Inl InvalidIR)"

definition CreateZExt_i16_to_i32 :: "16 word \<Rightarrow> 32 word" where
  "CreateZExt_i16_to_i32 w = ucast w"

definition CreateTrunc_i32_to_i16 :: "32 word \<Rightarrow> 16 word" where
  "CreateTrunc_i32_to_i16 v = ucast v"

definition widen_value :: "LLVM_Util \<Rightarrow> 32 word \<Rightarrow> llvm_value" where
  "widen_value st v = WideInt32 (replicate (m_vector_width st) v)"

definition wide_constant :: "LLVM_Util \<Rightarrow> 32 word \<Rightarrow> llvm_value" where
  "wide_constant st i = WideInt32 (replicate (m_vector_width st) i)"

fun op_and :: "llvm_value \<Rightarrow> llvm_value \<Rightarrow> llvm_value result" where
  "op_and (Int1 a) (Int1 b) = Inr (Int1 (a \<and> b))"
| "op_and (Int16 a) (Int16 b) = Inr (Int16 (a AND b))"
| "op_and (Int32 a) (Int32 b) = Inr (Int32 (a AND b))"
| "op_and (WideInt32 a) (WideInt32 b) =
     (if length a = length b then Inr (WideInt32 (map2 (AND) a b)) else Inl InvalidIR)"
| "op_and (WideBool a) (WideBool b) =
     (if length a = length b then Inr (WideBool (map2 (\<and>) a b)) else Inl InvalidIR)"
| "op_and _ _ = Inl InvalidIR"

text \<open>\<open>op_ne\<close> asserts that both operands have one type; on integers it is
  \<open>CreateICmpNE\<close>, lane-wise on vectors.\<close>

fun CreateICmpNE :: "llvm_value \<Rightarrow> llvm_value \<Rightarrow> llvm_value result" where
  "CreateICmpNE (Int1 a) (Int1 b) = Inr (Int1 (a \<noteq> b))"
| "CreateICmpNE (Int16 a) (Int16 b) = Inr (Int1 (a \<noteq> b))"
| "CreateICmpNE (Int32 a) (Int32 b) = Inr (Int1 (a \<noteq> b))"
| "CreateICmpNE (WideInt32 a) (WideInt32 b) =
     (if length a = length b then Inr (WideBool (map2 (\<noteq>) a b)) else Inl InvalidIR)"
| "CreateICmpNE (WideBool a) (WideBool b) =
     (if length a = length b then Inr (WideBool (map2 (\<noteq>) a b)) else Inl InvalidIR)"
| "CreateICmpNE _ _ = Inl InvalidIR"

definition op_ne :: "llvm_value \<Rightarrow> llvm_value \<Rightarrow> llvm_value result" where
  "op_ne a b = (if getType a \<noteq> getType b then Inl AssertionFailed else CreateICmpNE a b)"

definition mask_as_int :: "LLVM_Util \<Rightarrow> llvm_value \<Rightarrow> llvm_value result" where
  "mask_as_int st m =
     (if getType m \<noteq> type_wide_bool st then Inl AssertionFailed
      else case m of
             WideBool lanes \<Rightarrow>
               (case CreateBitCast_wide_bool_to_i16 lanes of
                  Inl e \<Rightarrow> Inl e
                | Inr result \<Rightarrow> Inr (Int32 (CreateZExt_i16_to_i32 result)))
           | _ \<Rightarrow> Inl AssertionFailed)"

text \<open>The per-lane filter of \<open>int_as_mask\<close>: lane \<open>lane_index\<close> holds \<open>1 << lane_index\<close>.\<close>

definition lane_filter :: "LLVM_Util \<Rightarrow> llvm_value" where
  "lane_filter st = WideInt32 (map (\<lambda>lane_index. push_bit lane_index 1) [0..<m_vector_width st])"

definition int_as_mask :: "LLVM_Util \<Rightarrow> llvm_value \<Rightarrow> llvm_value result" where
  "int_as_mask st v =
     (if getType v \<noteq> type_int then Inl AssertionFailed
      else case v of
             Int32 x \<Rightarrow>
               (case (if m_supports_native_bit_masks st
                      then
                        let intMask = CreateTrunc_i32_to_i16 x
                        in CreateBitCast_i16_to_wide_bool st intMask
                      else
                        let wide_int_mask = widen_value st x
                        in case op_and wide_int_mask (lane_filter st) of
                             Inl e \<Rightarrow> Inl e
                           | Inr filtered_mask \<Rightarrow> op_ne filtered_mask (wide_constant st 0)) of
                  Inl e \<Rightarrow> Inl e
                | Inr result \<Rightarrow>
                    if getType result = type_wide_bool st then Inr result
                    else Inl AssertionFailed)
           | _ \<Rightarrow> Inl AssertionFailed)"

section \<open>The vocabulary of the specification\<close>

text \<open>Lane sets as the specification speaks of them: the complement of a predicate,
  the lanes two predicates share, and a slot with the lanes of a predicate cleared.\<close>

definition lanes_complement :: "bool list \<Rightarrow> bool list" where
  "lanes_complement m = map Not m"

definition lanes_and :: "bool list \<Rightarrow> bool list \<Rightarrow> bool list" where
  "lanes_and a b = map2 (\<and>) a b"

definition lanes_clear :: "bool list \<Rightarrow> bool list \<Rightarrow> bool list" where
  "lanes_clear slot p = map2 (\<lambda>s a. s \<and> \<not> a) slot p"

text \<open>The blend table of the specification (section 4.1), on the previous entry's
  predicate and flag and the pushed predicate and flags: the new predicate and the new
  \<open>negated\<close> flag. \<open>select\<close> is the lane-wise choice.\<close>

definition blend_table :: "bool list \<Rightarrow> bool \<Rightarrow> bool list \<Rightarrow> bool \<Rightarrow> bool \<Rightarrow> bool list \<times> bool" where
  "blend_table prevPredicate prevNegate predicate neg absolute =
     (let allFalse = replicate (length predicate) False
      in if \<not> prevNegate \<and> \<not> neg
         then (if absolute then predicate
               else select_lanes prevPredicate predicate prevPredicate, False)
         else if \<not> prevNegate \<and> neg
         then (select_lanes predicate allFalse prevPredicate, False)
         else if prevNegate \<and> \<not> neg
         then (if absolute then predicate
               else select_lanes prevPredicate allFalse predicate, False)
         else (select_lanes prevPredicate prevPredicate predicate, True))"

text \<open>A four-lane state with one entry on the mask scope stack, for concrete runs.\<close>

definition scope_with :: "bool list \<Rightarrow> bool \<Rightarrow> int \<Rightarrow> LLVM_Util" where
  "scope_with prev prev_negate n =
     push_back_mask \<lparr>mask_value = WideBool prev, negate = prev_negate,
        applied_return_mask_count = n\<rparr> (new_LLVM_Util 4 False)"

text \<open>A four-lane state inside two nested function scopes: the shader's slot at address
  0, the inlined function's slot at address 1, a wide integer at address 2, masking
  enabled, and one entry on the mask scope stack.\<close>

definition nested_scope :: "bool list \<Rightarrow> bool \<Rightarrow> LLVM_Util" where
  "nested_scope prev prev_negate =
     (scope_with prev prev_negate 0)
       \<lparr>m_enable_masking_stack := [True],
        m_alloca_for_modified_mask_stack := [0, 1],
        m_masked_return_count_stack := [0, 2],
        memory := (\<lambda>_. Int32 0)
          (0 := WideBool [True, True, True, True], 1 := WideBool [True, True, True, False],
           2 := WideInt32 [1, 2, 3, 4]),
        next_alloca := 3\<rparr>"

text \<open>Running operations in sequence: the first failure ends the run.\<close>

definition then_do :: "LLVM_Util result \<Rightarrow> (LLVM_Util \<Rightarrow> LLVM_Util result) \<Rightarrow> LLVM_Util result" where
  "then_do r f = (case r of Inl e \<Rightarrow> Inl e | Inr st \<Rightarrow> f st)"

text \<open>The deferred-signal run of the specification (section 8), four lanes: enter a
  function scope with start predicate 1111, enter a conditional region active on 1100,
  issue a masked return, leave the region, and fold the pending return into the
  function's entry.\<close>

definition masked_return_scenario :: "LLVM_Util result" where
  "masked_return_scenario =
     then_do (then_do (then_do (then_do
       (push_function_mask (WideBool [True, True, True, True]) (new_LLVM_Util 4 False))
       (push_mask (WideBool [True, True, False, False]) False False))
       op_masked_return)
       pop_mask)
       apply_return_to_mask_stack"

section \<open>Lane-wise selection\<close>

lemma length_select_lanes:
  "length a = length c \<Longrightarrow> length b = length c \<Longrightarrow> length (select_lanes c a b) = length c"
  by (induction c a b rule: select_lanes.induct) auto

lemma nth_select_lanes:
  "length a = length c \<Longrightarrow> length b = length c \<Longrightarrow> i < length c \<Longrightarrow>
   select_lanes c a b ! i = (if c ! i then a ! i else b ! i)"
  by (induction c a b arbitrary: i rule: select_lanes.induct) (auto simp: nth_Cons')

lemma select_clear:
  "length f = length p \<Longrightarrow> select_lanes p (replicate (length p) False) f = lanes_clear f p"
  by (rule nth_equalityI) (auto simp: length_select_lanes nth_select_lanes lanes_clear_def)

lemma select_clear_negated:
  "length f = length q \<Longrightarrow> select_lanes q f q = lanes_clear f (lanes_complement q)"
  by (rule nth_equalityI)
    (auto simp: length_select_lanes nth_select_lanes lanes_clear_def lanes_complement_def)

lemma select_complement:
  "select_lanes q (replicate (length q) False) (replicate (length q) True) = lanes_complement q"
  by (rule nth_equalityI)
    (auto simp: length_select_lanes nth_select_lanes lanes_complement_def)

lemma length_lanes_clear: "length (lanes_clear s p) = min (length s) (length p)"
  by (simp add: lanes_clear_def)

lemma length_lanes_complement: "length (lanes_complement q) = length q"
  by (simp add: lanes_complement_def)

lemma lanes_clear_idem:
  "length s = length p \<Longrightarrow> lanes_clear (lanes_clear s p) p = lanes_clear s p"
  by (rule nth_equalityI) (auto simp: lanes_clear_def)

lemma select_clear_n:
  "length p = n \<Longrightarrow> length f = n \<Longrightarrow>
   select_lanes p (replicate n False) f = lanes_clear f p"
  using select_clear [of f p] by simp

lemma nth_lanes_clear:
  "i < length f \<Longrightarrow> i < length p \<Longrightarrow> lanes_clear f p ! i = (f ! i \<and> \<not> p ! i)"
  by (simp add: lanes_clear_def)

lemma select_narrow:
  "length q = n \<Longrightarrow> length rs = n \<Longrightarrow> select_lanes rs q rs = lanes_and q rs"
  by (rule nth_equalityI) (auto simp: length_select_lanes nth_select_lanes lanes_and_def)

lemma select_narrow_negated:
  "length q = n \<Longrightarrow> length rs = n \<Longrightarrow>
   lanes_complement (select_lanes rs q (replicate n True)) = lanes_and (lanes_complement q) rs"
  by (rule nth_equalityI)
    (auto simp: length_select_lanes nth_select_lanes lanes_and_def lanes_complement_def)

lemma getType_wide_bool:
  "getType v = type_wide_bool st \<longleftrightarrow>
   (\<exists>lanes. v = WideBool lanes \<and> length lanes = m_vector_width st)"
  by (cases v) (auto simp: type_wide_bool_def)

text \<open>A write to a persistent slot with masking switched off is a plain store, and the
  flag stack is as before afterwards.\<close>

lemma store_masking_disabled_eq:
  "store_masking_disabled val p st = Inr (CreateStore val p st)"
  by (simp add: store_masking_disabled_def op_store_def push_masking_enabled_def
      pop_masking_enabled_def CreateStore_def)

section \<open>Scope-stack queries and pops\<close>

lemma pop_mask_empty: "m_mask_stack st = [] \<Longrightarrow> pop_mask st = Inl AssertionFailed"
  by (simp add: pop_mask_def)

lemma pop_function_mask_empty:
  "m_alloca_for_modified_mask_stack st = [] \<or> m_masked_return_count_stack st = []
   \<Longrightarrow> pop_function_mask st = Inl AssertionFailed"
  by (auto simp: pop_function_mask_def pop_mask_def Let_def)

text \<open>
  C10. The break and continue counters can be asked for at any time: with no loop scope
  entered both queries answer 0, and inside a loop they answer the innermost loop's
  counters. The return counter cannot: \<open>masked_return_count\<close> asserts that a function
  scope exists, and answers the innermost function's counter when one does.
\<close>

theorem masked_count_queries:
  "(m_masked_loop_stack st = [] \<longrightarrow> masked_break_count st = 0 \<and> masked_continue_count st = 0)
   \<and> (m_masked_loop_stack st \<noteq> [] \<longrightarrow>
        masked_break_count st = break_count (last (m_masked_loop_stack st))
        \<and> masked_continue_count st = continue_count (last (m_masked_loop_stack st)))
   \<and> (m_masked_return_count_stack st = [] \<longrightarrow> masked_return_count st = Inl AssertionFailed)
   \<and> (m_masked_return_count_stack st \<noteq> [] \<longrightarrow>
        masked_return_count st = Inr (last (m_masked_return_count_stack st)))"
  by (simp add: masked_break_count_def masked_continue_count_def masked_return_count_def)

theorem masked_count_queries_witness:
  "m_masked_loop_stack (new_LLVM_Util 4 False) = []
   \<and> masked_break_count (new_LLVM_Util 4 False) = 0
   \<and> masked_continue_count (new_LLVM_Util 4 False) = 0
   \<and> m_masked_return_count_stack (new_LLVM_Util 4 False) = []
   \<and> masked_return_count (new_LLVM_Util 4 False) = Inl AssertionFailed
   \<and> m_masked_loop_stack (push_masked_loop 0 1 (new_LLVM_Util 4 False)) \<noteq> []
   \<and> masked_break_count (push_masked_loop 0 1 (new_LLVM_Util 4 False)) = 0
   \<and> m_masked_return_count_stack
        ((new_LLVM_Util 4 False)\<lparr>m_masked_return_count_stack := [2]\<rparr>) \<noteq> []
   \<and> masked_return_count ((new_LLVM_Util 4 False)\<lparr>m_masked_return_count_stack := [2]\<rparr>)
       = Inr 2"
  using masked_count_queries [of "new_LLVM_Util 4 False"]
    masked_count_queries [of "push_masked_loop 0 1 (new_LLVM_Util 4 False)"]
    masked_count_queries [of "(new_LLVM_Util 4 False)\<lparr>m_masked_return_count_stack := [2]\<rparr>"]
  by (simp add: new_LLVM_Util_def push_masked_loop_def)

text \<open>
  C9. Popping an empty scope stack. \<open>pop_mask\<close> and \<open>pop_function_mask\<close> assert that
  their stacks are not empty and abort. \<open>pop_masked_loop\<close> has no assertion: on an empty
  loop-scope stack it runs \<open>pop_back()\<close> outside its contract instead of aborting.
\<close>

theorem pop_empty_scope_stacks:
  "pop_mask (new_LLVM_Util 4 False) = Inl AssertionFailed
   \<and> pop_function_mask (new_LLVM_Util 4 False) = Inl AssertionFailed
   \<and> pop_function_mask
        (push_back_mask \<lparr>mask_value = WideBool [True, True, True, True], negate = False,
            applied_return_mask_count = 0\<rparr> (new_LLVM_Util 4 False)) = Inl AssertionFailed
   \<and> pop_masked_loop (new_LLVM_Util 4 False) = Inl UndefinedBehaviour
   \<and> pop_masked_loop (new_LLVM_Util 4 False) \<noteq> Inl AssertionFailed"
  by (simp add: pop_mask_def pop_function_mask_def pop_masked_loop_def new_LLVM_Util_def
      push_back_mask_def)

section \<open>Pushing onto the mask scope stack\<close>

text \<open>What \<open>push_mask\<close> does on a non-empty stack whose top holds a lane predicate.\<close>

lemma push_mask_nonempty:
  assumes "m_mask_stack st \<noteq> []"
    and "mask_value (last (m_mask_stack st)) = WideBool prev"
    and "length prev = m_vector_width st"
    and "length m = m_vector_width st"
  shows "push_mask (WideBool m) neg absolute st =
      (if neg \<and> absolute then Inl AssertionFailed
       else Inr (st\<lparr>m_mask_stack := m_mask_stack st @
              [\<lparr>mask_value =
                   WideBool (fst (blend_table prev (negate (last (m_mask_stack st))) m neg absolute)),
                 negate = snd (blend_table prev (negate (last (m_mask_stack st))) m neg absolute),
                 applied_return_mask_count =
                   (if absolute then 0
                    else applied_return_mask_count (last (m_mask_stack st)))\<rparr>]\<rparr>))"
  using assms
  by (cases neg; cases absolute; cases "negate (last (m_mask_stack st))")
    (simp_all add: push_mask_def blend_table_def type_wide_bool_def wide_constant_bool_def
      push_back_mask_def Let_def)

lemma push_mask_empty:
  assumes "m_mask_stack st = []" and "length m = m_vector_width st"
  shows "push_mask (WideBool m) neg absolute st =
     Inr (st\<lparr>m_mask_stack := [\<lparr>mask_value = WideBool m, negate = neg,
            applied_return_mask_count = 0\<rparr>]\<rparr>)"
  using assms by (simp add: push_mask_def type_wide_bool_def push_back_mask_def)

lemma current_mask_top:
  assumes "m_mask_stack st \<noteq> []"
    and "mask_value (last (m_mask_stack st)) = WideBool q"
    and "length q = m_vector_width st"
  shows "current_mask st =
     Inr (WideBool (if negate (last (m_mask_stack st)) then lanes_complement q else q))"
  using assms select_complement [of q]
  by (simp add: current_mask_def wide_constant_bool_def Let_def)

text \<open>Entering a function scope: a fresh slot holding the start predicate, a fresh
  return counter at 0, and an absolute push of the start predicate.\<close>

lemma push_function_mask_entry:
  assumes "length m = m_vector_width st"
  shows "push_function_mask (WideBool m) st =
     Inr (st\<lparr>next_alloca := Suc (next_alloca st),
            m_alloca_for_modified_mask_stack := m_alloca_for_modified_mask_stack st @ [next_alloca st],
            memory := (memory st)(next_alloca st := WideBool m),
            m_masked_return_count_stack := m_masked_return_count_stack st @ [0],
            m_mask_stack := m_mask_stack st @
              [\<lparr>mask_value = WideBool m, negate = False, applied_return_mask_count = 0\<rparr>]\<rparr>)"
  using assms
  by (simp add: push_function_mask_def op_alloca_def store_masking_disabled_eq CreateStore_def
      push_mask_def type_wide_bool_def push_back_mask_def Let_def)

text \<open>A push that goes through leaves a lane predicate of the state's width on top,
  provided the entry below held one: the typing that the statements about the top entry
  assume is what pushes maintain.\<close>

lemma push_mask_top_type:
  assumes "push_mask m neg absolute st = Inr st'"
    and "m_mask_stack st \<noteq> [] \<Longrightarrow>
         getType (mask_value (last (m_mask_stack st))) = type_wide_bool st"
  shows "getType (mask_value (last (m_mask_stack st'))) = type_wide_bool st'"
proof -
  from assms(1) obtain lanes where m: "m = WideBool lanes" "length lanes = m_vector_width st"
    by (auto simp: push_mask_def getType_wide_bool split: if_splits)
  show ?thesis
  proof (cases "m_mask_stack st = []")
    case True
    with assms(1) m show ?thesis
      using push_mask_empty [OF True m(2), of neg absolute]
      by (auto simp: type_wide_bool_def)
  next
    case False
    with assms(2) obtain prev where p: "mask_value (last (m_mask_stack st)) = WideBool prev"
        "length prev = m_vector_width st"
      by (auto simp: getType_wide_bool)
    have "length (fst (blend_table prev (negate (last (m_mask_stack st))) lanes neg absolute))
        = m_vector_width st"
      using p(2) m(2) by (simp add: blend_table_def Let_def length_select_lanes)
    with assms(1) m show ?thesis
      using push_mask_nonempty [OF False p m(2), of neg absolute]
      by (auto simp: type_wide_bool_def split: if_splits)
  qed
qed

text \<open>
  C1. A push onto a non-empty mask scope stack appends one entry and leaves the entries
  below alone; the new entry's predicate and \<open>negated\<close> flag are the ones the blend table
  gives for the previous top and the pushed predicate. The two rows of the table with
  \<open>negate\<close> set are relative only: with \<open>absolute\<close> set as well the push is stopped by
  an assertion and makes no entry.
\<close>

theorem push_mask_blend_table:
  assumes "m_mask_stack st \<noteq> []"
    and "mask_value (last (m_mask_stack st)) = WideBool prev"
    and "length prev = m_vector_width st"
    and "length m = m_vector_width st"
  shows "(neg \<and> absolute \<longrightarrow> push_mask (WideBool m) neg absolute st = Inl AssertionFailed)
    \<and> (\<not> (neg \<and> absolute) \<longrightarrow>
         (\<exists>n. push_mask (WideBool m) neg absolute st =
            Inr (st\<lparr>m_mask_stack := m_mask_stack st @
              [\<lparr>mask_value =
                   WideBool (fst (blend_table prev (negate (last (m_mask_stack st))) m neg absolute)),
                 negate = snd (blend_table prev (negate (last (m_mask_stack st))) m neg absolute),
                 applied_return_mask_count = n\<rparr>]\<rparr>)))"
  using push_mask_nonempty [OF assms, of neg absolute]
  by (cases "neg \<and> absolute") (simp_all, blast+)

text \<open>The four rows at previous predicate 1100 and pushed predicate 1010 (lane 0 first),
  the absolute push over a negated top, and the refused push.\<close>

theorem push_mask_blend_table_witness:
  "(\<exists>n. push_mask (WideBool [True, False, True, False]) False False
           (scope_with [True, True, False, False] False 0)
        = Inr (push_back_mask \<lparr>mask_value = WideBool [True, False, False, False], negate = False,
                 applied_return_mask_count = n\<rparr> (scope_with [True, True, False, False] False 0)))
   \<and> (\<exists>n. push_mask (WideBool [True, False, True, False]) True False
           (scope_with [True, True, False, False] False 0)
        = Inr (push_back_mask \<lparr>mask_value = WideBool [False, True, False, False], negate = False,
                 applied_return_mask_count = n\<rparr> (scope_with [True, True, False, False] False 0)))
   \<and> (\<exists>n. push_mask (WideBool [True, False, True, False]) False False
           (scope_with [True, True, False, False] True 0)
        = Inr (push_back_mask \<lparr>mask_value = WideBool [False, False, True, False], negate = False,
                 applied_return_mask_count = n\<rparr> (scope_with [True, True, False, False] True 0)))
   \<and> (\<exists>n. push_mask (WideBool [True, False, True, False]) True False
           (scope_with [True, True, False, False] True 0)
        = Inr (push_back_mask \<lparr>mask_value = WideBool [True, True, True, False], negate = True,
                 applied_return_mask_count = n\<rparr> (scope_with [True, True, False, False] True 0)))
   \<and> (\<exists>n. push_mask (WideBool [True, False, True, False]) False True
           (scope_with [True, True, False, False] True 0)
        = Inr (push_back_mask \<lparr>mask_value = WideBool [True, False, True, False], negate = False,
                 applied_return_mask_count = n\<rparr> (scope_with [True, True, False, False] True 0)))
   \<and> push_mask (WideBool [True, False, True, False]) True True
           (scope_with [True, True, False, False] False 0) = Inl AssertionFailed"
  using
    push_mask_blend_table [of "scope_with [True, True, False, False] False 0"
      "[True, True, False, False]" "[True, False, True, False]" False False]
    push_mask_blend_table [of "scope_with [True, True, False, False] False 0"
      "[True, True, False, False]" "[True, False, True, False]" True False]
    push_mask_blend_table [of "scope_with [True, True, False, False] True 0"
      "[True, True, False, False]" "[True, False, True, False]" False False]
    push_mask_blend_table [of "scope_with [True, True, False, False] True 0"
      "[True, True, False, False]" "[True, False, True, False]" True False]
    push_mask_blend_table [of "scope_with [True, True, False, False] True 0"
      "[True, True, False, False]" "[True, False, True, False]" False True]
    push_mask_blend_table [of "scope_with [True, True, False, False] False 0"
      "[True, True, False, False]" "[True, False, True, False]" True True]
  by (simp add: scope_with_def push_back_mask_def new_LLVM_Util_def blend_table_def)

text \<open>
  C2. As stated the claim fails: the code gives the new entry the count 0 when
  \<open>absolute\<close> is set and the parent's count otherwise, the reverse of the claim. Amended:
  for a push onto a non-empty stack the new entry's \<open>appliedSignalCount\<close> is 0 when
  \<open>absolute\<close> is set and is inherited from the parent entry otherwise. A function scope
  is opened by an absolute push, so its entry starts at 0 together with the function's
  fresh return counter.
\<close>

theorem push_mask_applied_count:
  assumes "m_mask_stack st \<noteq> []"
    and "mask_value (last (m_mask_stack st)) = WideBool prev"
    and "length prev = m_vector_width st"
    and "length m = m_vector_width st"
    and "\<not> (neg \<and> absolute)"
  shows "(\<exists>st'. push_mask (WideBool m) neg absolute st = Inr st'
           \<and> applied_return_mask_count (last (m_mask_stack st')) =
               (if absolute then 0 else applied_return_mask_count (last (m_mask_stack st))))
     \<and> (\<exists>st'. push_function_mask (WideBool m) st = Inr st'
           \<and> applied_return_mask_count (last (m_mask_stack st')) = 0
           \<and> masked_return_count st' = Inr 0)"
  using push_mask_nonempty [OF assms(1-4), of neg absolute] assms(5)
    push_function_mask_entry [OF assms(4)]
  by (simp add: masked_return_count_def)

text \<open>A relative push over a parent whose count is 3 yields an entry whose count is 3,
  not 0.\<close>

theorem push_mask_applied_count_counterexample:
  "\<not> (\<forall>st m neg absolute st'.
        m_mask_stack st \<noteq> [] \<and> push_mask m neg absolute st = Inr st' \<longrightarrow>
        applied_return_mask_count (last (m_mask_stack st')) =
          (if absolute then applied_return_mask_count (last (m_mask_stack st)) else 0))"
proof
  assume a: "\<forall>st m neg absolute st'.
        m_mask_stack st \<noteq> [] \<and> push_mask m neg absolute st = Inr st' \<longrightarrow>
        applied_return_mask_count (last (m_mask_stack st')) =
          (if absolute then applied_return_mask_count (last (m_mask_stack st)) else 0)"
  let ?st = "scope_with [True, True, False, False] False 3"
  let ?st' = "push_back_mask \<lparr>mask_value = WideBool [True, False, False, False], negate = False,
                 applied_return_mask_count = 3\<rparr> ?st"
  have "m_mask_stack ?st \<noteq> [] \<and> push_mask (WideBool [True, False, True, False]) False False ?st = Inr ?st'"
    by (simp add: scope_with_def push_back_mask_def new_LLVM_Util_def push_mask_def
        type_wide_bool_def)
  with a have "applied_return_mask_count (last (m_mask_stack ?st')) = (if False then applied_return_mask_count (last (m_mask_stack ?st)) else 0)"
    by blast
  then show False
    by (simp add: push_back_mask_def)
qed

theorem push_mask_applied_count_witness:
  "(\<exists>st'. push_mask (WideBool [True, False, True, False]) False False
             (scope_with [True, True, False, False] False 3) = Inr st'
           \<and> applied_return_mask_count (last (m_mask_stack st')) = 3)
   \<and> (\<exists>st'. push_mask (WideBool [True, False, True, False]) False True
             (scope_with [True, True, False, False] False 3) = Inr st'
           \<and> applied_return_mask_count (last (m_mask_stack st')) = 0)
   \<and> (\<exists>st'. push_function_mask (WideBool [True, False, True, False])
             (scope_with [True, True, False, False] False 3) = Inr st'
           \<and> applied_return_mask_count (last (m_mask_stack st')) = 0
           \<and> masked_return_count st' = Inr 0)"
  using
    push_mask_applied_count [of "scope_with [True, True, False, False] False 3"
      "[True, True, False, False]" "[True, False, True, False]" False False]
    push_mask_applied_count [of "scope_with [True, True, False, False] False 3"
      "[True, True, False, False]" "[True, False, True, False]" False True]
  by (simp add: scope_with_def push_back_mask_def new_LLVM_Util_def)

text \<open>
  C8. Pushing a predicate \<open>m\<close> negated and relative, reading the current predicate and
  popping: the predicate read is the complement of \<open>m\<close> when the stack was empty, and the
  complement of \<open>m\<close> restricted to the prior current predicate when it was not, whether
  the prior top is negated or not; the pop gives the prior state back. The current
  predicate of a negated entry is \<open>select(predicate, allFalse, allTrue)\<close>.
\<close>

theorem push_negated_current:
  assumes "length m = m_vector_width st"
  shows "(m_mask_stack st = [] \<longrightarrow>
           (\<exists>st1. push_mask (WideBool m) True False st = Inr st1
              \<and> current_mask st1 = Inr (WideBool (lanes_complement m))
              \<and> pop_mask st1 = Inr st))
    \<and> (\<forall>priorCurrent.
          getType (mask_value (last (m_mask_stack st))) = type_wide_bool st
          \<and> current_mask st = Inr (WideBool priorCurrent) \<longrightarrow>
           (\<exists>st1. push_mask (WideBool m) True False st = Inr st1
              \<and> current_mask st1 = Inr (WideBool (lanes_and (lanes_complement m) priorCurrent))
              \<and> pop_mask st1 = Inr st))
    \<and> (m_mask_stack st \<noteq> [] \<and> negate (last (m_mask_stack st)) \<longrightarrow>
          current_mask st =
            CreateSelect (mask_value (last (m_mask_stack st))) (wide_constant_bool st False)
              (wide_constant_bool st True))"
proof (intro conjI impI allI)
  assume "m_mask_stack st \<noteq> [] \<and> negate (last (m_mask_stack st))"
  then show "current_mask st =
            CreateSelect (mask_value (last (m_mask_stack st))) (wide_constant_bool st False)
              (wide_constant_bool st True)"
    by (simp add: current_mask_def)
next
  assume e: "m_mask_stack st = []"
  let ?st1 = "st\<lparr>m_mask_stack := [\<lparr>mask_value = WideBool m, negate = True,
            applied_return_mask_count = 0\<rparr>]\<rparr>"
  have "push_mask (WideBool m) True False st = Inr ?st1"
    using push_mask_empty [OF e assms] .
  moreover have "current_mask ?st1 = Inr (WideBool (lanes_complement m))"
    using current_mask_top [of ?st1 m] assms by simp
  moreover have "pop_mask ?st1 = Inr st"
    using e by (simp add: pop_mask_def)
  ultimately show "\<exists>st1. push_mask (WideBool m) True False st = Inr st1
              \<and> current_mask st1 = Inr (WideBool (lanes_complement m))
              \<and> pop_mask st1 = Inr st"
    by blast
next
  fix priorCurrent
  assume a: "getType (mask_value (last (m_mask_stack st))) = type_wide_bool st
          \<and> current_mask st = Inr (WideBool priorCurrent)"
  then obtain q where q: "mask_value (last (m_mask_stack st)) = WideBool q"
      "length q = m_vector_width st"
    by (auto simp: getType_wide_bool)
  from a have ne: "m_mask_stack st \<noteq> []"
    by (auto simp: current_mask_def)
  have prior: "priorCurrent = (if negate (last (m_mask_stack st)) then lanes_complement q else q)"
    using current_mask_top [OF ne q] a by simp
  let ?bt = "blend_table q (negate (last (m_mask_stack st))) m True False"
  let ?st1 = "st\<lparr>m_mask_stack := m_mask_stack st @
              [\<lparr>mask_value = WideBool (fst ?bt), negate = snd ?bt,
                 applied_return_mask_count = applied_return_mask_count (last (m_mask_stack st))\<rparr>]\<rparr>"
  have push: "push_mask (WideBool m) True False st = Inr ?st1"
    using push_mask_nonempty [OF ne q assms, of True False] by simp
  have len: "length (fst ?bt) = m_vector_width st"
    using q assms by (simp add: blend_table_def Let_def length_select_lanes)
  have cur: "current_mask ?st1 = Inr (WideBool (if snd ?bt then lanes_complement (fst ?bt) else fst ?bt))"
    using current_mask_top [of ?st1 "fst ?bt"] len by simp
  have val: "(if snd ?bt then lanes_complement (fst ?bt) else fst ?bt)
      = lanes_and (lanes_complement m) priorCurrent"
    using q assms prior
    by (intro nth_equalityI)
      (auto simp: blend_table_def Let_def lanes_and_def lanes_complement_def length_select_lanes
        nth_select_lanes split: if_splits)
  have "pop_mask ?st1 = Inr st"
    by (simp add: pop_mask_def)
  with push cur val show "\<exists>st1. push_mask (WideBool m) True False st = Inr st1
              \<and> current_mask st1 = Inr (WideBool (lanes_and (lanes_complement m) priorCurrent))
              \<and> pop_mask st1 = Inr st"
    by auto
qed

theorem push_negated_current_witness:
  "length [True, False, True, False] = m_vector_width (new_LLVM_Util 4 False)
   \<and> m_mask_stack (new_LLVM_Util 4 False) = []
   \<and> (\<exists>st1. push_mask (WideBool [True, False, True, False]) True False (new_LLVM_Util 4 False)
            = Inr st1
          \<and> current_mask st1 = Inr (WideBool [False, True, False, True])
          \<and> pop_mask st1 = Inr (new_LLVM_Util 4 False))
   \<and> current_mask (scope_with [True, True, False, False] False 0)
        = Inr (WideBool [True, True, False, False])
   \<and> (\<exists>st1. push_mask (WideBool [True, False, True, False]) True False
              (scope_with [True, True, False, False] False 0) = Inr st1
          \<and> current_mask st1 = Inr (WideBool [False, True, False, False])
          \<and> pop_mask st1 = Inr (scope_with [True, True, False, False] False 0))
   \<and> current_mask (scope_with [True, True, False, False] True 0)
        = Inr (WideBool [False, False, True, True])
   \<and> (\<exists>st1. push_mask (WideBool [True, False, True, False]) True False
              (scope_with [True, True, False, False] True 0) = Inr st1
          \<and> current_mask st1 = Inr (WideBool [False, False, False, True])
          \<and> pop_mask st1 = Inr (scope_with [True, True, False, False] True 0))"
proof -
  have w: "length [True, False, True, False] = m_vector_width (new_LLVM_Util 4 False)"
      "length [True, False, True, False] = m_vector_width (scope_with [True, True, False, False] False 0)"
      "length [True, False, True, False] = m_vector_width (scope_with [True, True, False, False] True 0)"
    by (simp_all add: new_LLVM_Util_def scope_with_def push_back_mask_def)
  have e: "m_mask_stack (new_LLVM_Util 4 False) = []"
    by (simp add: new_LLVM_Util_def)
  have c1: "getType (mask_value (last (m_mask_stack (scope_with [True, True, False, False] False 0))))
        = type_wide_bool (scope_with [True, True, False, False] False 0)
      \<and> current_mask (scope_with [True, True, False, False] False 0)
        = Inr (WideBool [True, True, False, False])"
    by (simp add: new_LLVM_Util_def scope_with_def push_back_mask_def type_wide_bool_def
        current_mask_def)
  have c2: "getType (mask_value (last (m_mask_stack (scope_with [True, True, False, False] True 0))))
        = type_wide_bool (scope_with [True, True, False, False] True 0)
      \<and> current_mask (scope_with [True, True, False, False] True 0)
        = Inr (WideBool [False, False, True, True])"
    by (simp add: new_LLVM_Util_def scope_with_def push_back_mask_def type_wide_bool_def
        current_mask_def wide_constant_bool_def eval_nat_numeral)
  show ?thesis
    using w(1) e c1 c2
      push_negated_current [OF w(1), THEN conjunct1, rule_format, OF e]
      push_negated_current [OF w(2), THEN conjunct2, THEN conjunct1, rule_format, OF c1]
      push_negated_current [OF w(3), THEN conjunct2, THEN conjunct1, rule_format, OF c2]
    by (simp add: lanes_and_def lanes_complement_def)
qed

section \<open>The current predicate\<close>

text \<open>When the top entry holds a lane predicate and \<open>current_mask\<close> answers \<open>p\<close>, the
  entry stores \<open>p\<close> itself, or the complement of \<open>p\<close> when it is negated.\<close>

lemma current_mask_resolved:
  assumes "getType (mask_value (last (m_mask_stack st))) = type_wide_bool st"
    and "current_mask st = Inr (WideBool p)"
  obtains q where "m_mask_stack st \<noteq> []"
    and "mask_value (last (m_mask_stack st)) = WideBool q"
    and "length q = m_vector_width st"
    and "p = (if negate (last (m_mask_stack st)) then lanes_complement q else q)"
proof -
  from assms(1) obtain q where q: "mask_value (last (m_mask_stack st)) = WideBool q"
      "length q = m_vector_width st"
    by (auto simp: getType_wide_bool)
  from assms(2) have ne: "m_mask_stack st \<noteq> []"
    by (auto simp: current_mask_def)
  have "p = (if negate (last (m_mask_stack st)) then lanes_complement q else q)"
    using current_mask_top [OF ne q] assms(2) by simp
  with ne q show thesis by (rule that)
qed

section \<open>Masked return\<close>

lemma op_masked_return_eq:
  assumes "m_mask_stack st \<noteq> []"
    and "mask_value (last (m_mask_stack st)) = WideBool q"
    and "length q = m_vector_width st"
    and "m_alloca_for_modified_mask_stack st \<noteq> []"
    and "memory st (last (m_alloca_for_modified_mask_stack st)) = WideBool f"
    and "length f = m_vector_width st"
    and "m_masked_return_count_stack st \<noteq> []"
    and "last (m_masked_return_count_stack st) < INT_MAX"
  shows "op_masked_return st =
     Inr (st\<lparr>memory := (memory st)(last (m_alloca_for_modified_mask_stack st) :=
              WideBool (lanes_clear f
                (if negate (last (m_mask_stack st)) then lanes_complement q else q))),
            m_masked_return_count_stack :=
              butlast (m_masked_return_count_stack st)
                @ [last (m_masked_return_count_stack st) + 1]\<rparr>)"
  using assms
  by (simp add: op_masked_return_def Let_def op_load_def wide_constant_bool_def
      store_masking_disabled_eq CreateStore_def replace_back_def increment_int_def
      select_clear_n select_clear_negated)

text \<open>At \<open>INT_MAX\<close> the increment of the return counter is a signed overflow.\<close>

lemma op_masked_return_overflow:
  assumes "m_mask_stack st \<noteq> []"
    and "mask_value (last (m_mask_stack st)) = WideBool q"
    and "length q = m_vector_width st"
    and "m_alloca_for_modified_mask_stack st \<noteq> []"
    and "memory st (last (m_alloca_for_modified_mask_stack st)) = WideBool f"
    and "length f = m_vector_width st"
    and "m_masked_return_count_stack st \<noteq> []"
    and "last (m_masked_return_count_stack st) = INT_MAX"
  shows "op_masked_return st = Inl UndefinedBehaviour"
  using assms
  by (simp add: op_masked_return_def Let_def op_load_def wide_constant_bool_def
      store_masking_disabled_eq CreateStore_def increment_int_def
      select_clear_n select_clear_negated)

lemma masked_return_scenario_run:
  "masked_return_scenario =
     Inr ((new_LLVM_Util 4 False)
       \<lparr>m_mask_stack := [\<lparr>mask_value = WideBool [False, False, True, True], negate = False,
            applied_return_mask_count = 1\<rparr>],
        m_alloca_for_modified_mask_stack := [0],
        m_masked_return_count_stack := [1],
        memory := (\<lambda>_. Int32 0)(0 := WideBool [False, False, True, True]),
        next_alloca := 1\<rparr>)"
  by (simp add: masked_return_scenario_def then_do_def new_LLVM_Util_def
      push_function_mask_def op_alloca_def store_masking_disabled_eq CreateStore_def
      push_mask_def type_wide_bool_def push_back_mask_def op_masked_return_def op_load_def
      wide_constant_bool_def replace_back_def pop_mask_def apply_return_to_mask_stack_def
      increment_int_def INT_MAX_def Let_def eval_nat_numeral)

text \<open>
  C3. \<open>op_masked_return\<close> rewrites the innermost function's slot to its old value with
  the lanes of the current predicate cleared (lane \<open>i\<close> stays set exactly when it was
  set and is not active now), adds 1 to that function's return counter and changes
  nothing else. The counter is a C++ \<open>int\<close>: the statement is for a counter below
  \<open>INT_MAX\<close>, where the increment is defined (\<open>op_masked_return_overflow\<close> is the other
  case). In the four-lane run of the specification the slot holds 0011 and the
  return counter is 1 after the masked return and the fold, and the slot still holds
  0011 after the function scope is left.
\<close>

theorem op_masked_return_clears_active_lanes:
  assumes "getType (mask_value (last (m_mask_stack st))) = type_wide_bool st"
    and "current_mask st = Inr (WideBool p)"
    and "m_alloca_for_modified_mask_stack st \<noteq> []"
    and "memory st (last (m_alloca_for_modified_mask_stack st)) = WideBool f"
    and "length f = m_vector_width st"
    and "m_masked_return_count_stack st \<noteq> []"
    and "last (m_masked_return_count_stack st) < INT_MAX"
  shows "op_masked_return st =
       Inr (st\<lparr>memory := (memory st)(last (m_alloca_for_modified_mask_stack st) :=
                WideBool (lanes_clear f p)),
              m_masked_return_count_stack :=
                butlast (m_masked_return_count_stack st)
                  @ [last (m_masked_return_count_stack st) + 1]\<rparr>)
    \<and> length (lanes_clear f p) = m_vector_width st
    \<and> (\<forall>i < m_vector_width st. lanes_clear f p ! i = (f ! i \<and> \<not> p ! i))
    \<and> (\<exists>st'. masked_return_scenario = Inr st'
          \<and> memory st' (last (m_alloca_for_modified_mask_stack st')) =
                WideBool [False, False, True, True]
          \<and> masked_return_count st' = Inr 1
          \<and> (\<exists>st''. pop_function_mask st' = Inr st''
                \<and> memory st'' 0 = WideBool [False, False, True, True]))"
proof -
  from assms(1,2) obtain q where q: "m_mask_stack st \<noteq> []"
      "mask_value (last (m_mask_stack st)) = WideBool q"
      "length q = m_vector_width st"
      "p = (if negate (last (m_mask_stack st)) then lanes_complement q else q)"
    by (rule current_mask_resolved)
  then have lp: "length p = m_vector_width st"
    by (simp add: length_lanes_complement)
  have "op_masked_return st =
       Inr (st\<lparr>memory := (memory st)(last (m_alloca_for_modified_mask_stack st) :=
                WideBool (lanes_clear f p)),
              m_masked_return_count_stack :=
                butlast (m_masked_return_count_stack st)
                  @ [last (m_masked_return_count_stack st) + 1]\<rparr>)"
    using op_masked_return_eq [OF q(1,2,3) assms(3,4,5,6,7)] q(4) by simp
  moreover have "length (lanes_clear f p) = m_vector_width st"
    using lp assms(5) by (simp add: length_lanes_clear)
  moreover have "\<forall>i < m_vector_width st. lanes_clear f p ! i = (f ! i \<and> \<not> p ! i)"
    using lp assms(5) by (simp add: nth_lanes_clear)
  moreover have "\<exists>st'. masked_return_scenario = Inr st'
          \<and> memory st' (last (m_alloca_for_modified_mask_stack st')) =
                WideBool [False, False, True, True]
          \<and> masked_return_count st' = Inr 1
          \<and> (\<exists>st''. pop_function_mask st' = Inr st''
                \<and> memory st'' 0 = WideBool [False, False, True, True])"
    by (simp add: masked_return_scenario_run masked_return_count_def pop_function_mask_def
        pop_mask_def)
  ultimately show ?thesis by blast
qed

theorem op_masked_return_clears_active_lanes_witness:
  "getType (mask_value (last (m_mask_stack (nested_scope [True, True, False, False] True))))
     = type_wide_bool (nested_scope [True, True, False, False] True)
   \<and> current_mask (nested_scope [True, True, False, False] True)
       = Inr (WideBool [False, False, True, True])
   \<and> memory (nested_scope [True, True, False, False] True)
        (last (m_alloca_for_modified_mask_stack (nested_scope [True, True, False, False] True)))
       = WideBool [True, True, True, False]
   \<and> last (m_masked_return_count_stack (nested_scope [True, True, False, False] True))
       < INT_MAX
   \<and> op_masked_return (nested_scope [True, True, False, False] True)
       = Inr ((nested_scope [True, True, False, False] True)
           \<lparr>memory := (memory (nested_scope [True, True, False, False] True))
              (1 := WideBool [True, True, False, False]),
            m_masked_return_count_stack := [0, 3]\<rparr>)
   \<and> (\<exists>st'. masked_return_scenario = Inr st'
          \<and> memory st' (last (m_alloca_for_modified_mask_stack st')) =
                WideBool [False, False, True, True]
          \<and> masked_return_count st' = Inr 1
          \<and> (\<exists>st''. pop_function_mask st' = Inr st''
                \<and> memory st'' 0 = WideBool [False, False, True, True]))"
  using op_masked_return_clears_active_lanes [of "nested_scope [True, True, False, False] True"
      "[False, False, True, True]" "[True, True, True, False]"]
  by (simp add: nested_scope_def scope_with_def push_back_mask_def new_LLVM_Util_def
      type_wide_bool_def current_mask_def wide_constant_bool_def lanes_clear_def
      INT_MAX_def eval_nat_numeral)

section \<open>Masked exit\<close>

lemma op_masked_exit_eq:
  assumes "m_mask_stack st \<noteq> []"
    and "mask_value (last (m_mask_stack st)) = WideBool q"
    and "length q = m_vector_width st"
    and "m_alloca_for_modified_mask_stack st \<noteq> []"
    and "memory st (hd (m_alloca_for_modified_mask_stack st)) = WideBool s"
    and "length s = m_vector_width st"
    and "memory st (last (m_alloca_for_modified_mask_stack st)) = WideBool f"
    and "length f = m_vector_width st"
    and "m_masked_return_count_stack st \<noteq> []"
    and "m_masked_exit_count st < INT_MAX"
    and "last (m_masked_return_count_stack st) < INT_MAX"
  shows "op_masked_exit st =
     Inr (st\<lparr>memory := (memory st)
              (hd (m_alloca_for_modified_mask_stack st) :=
                 WideBool (lanes_clear s
                   (if negate (last (m_mask_stack st)) then lanes_complement q else q)),
               last (m_alloca_for_modified_mask_stack st) :=
                 WideBool (lanes_clear f
                   (if negate (last (m_mask_stack st)) then lanes_complement q else q))),
            m_masked_exit_count := m_masked_exit_count st + 1,
            m_masked_return_count_stack :=
              butlast (m_masked_return_count_stack st)
                @ [last (m_masked_return_count_stack st) + 1]\<rparr>)"
proof -
  let ?p = "if negate (last (m_mask_stack st)) then lanes_complement q else q"
  let ?a = "m_alloca_for_modified_mask_stack st"
  have lp: "length ?p = m_vector_width st"
    using assms(3) by (simp add: lanes_complement_def)
  show ?thesis
  proof (cases "length ?a > 1")
    case False
    with assms(4) have one: "hd ?a = last ?a"
      by (cases ?a) auto
    with assms have "s = f" by simp
    with False one assms show ?thesis
      by (simp add: op_masked_exit_def Let_def op_load_def wide_constant_bool_def
          store_masking_disabled_eq CreateStore_def replace_back_def increment_int_def
          select_clear_n select_clear_negated)
  next
    case True
    show ?thesis
    proof (cases "hd ?a = last ?a")
      case same: True
      with assms have sf: "s = f" by simp
      have idem: "lanes_clear (lanes_clear f ?p) ?p = lanes_clear f ?p"
        using lanes_clear_idem [of f ?p] lp assms by simp
      have "lanes_clear (lanes_clear f q) q = lanes_clear f q"
        "lanes_clear (lanes_clear f (lanes_complement q)) (lanes_complement q)
          = lanes_clear f (lanes_complement q)"
        using lanes_clear_idem [of f q] lanes_clear_idem [of f "lanes_complement q"] assms
        by (simp_all add: lanes_complement_def)
      with True same sf assms show ?thesis
        by (simp add: op_masked_exit_def Let_def op_load_def wide_constant_bool_def
            store_masking_disabled_eq CreateStore_def replace_back_def increment_int_def
            select_clear_n select_clear_negated length_lanes_clear length_lanes_complement)
    next
      case diff: False
      from True diff assms show ?thesis
        by (simp add: op_masked_exit_def Let_def op_load_def wide_constant_bool_def
            store_masking_disabled_eq CreateStore_def replace_back_def increment_int_def
            select_clear_n select_clear_negated)
    qed
  qed
qed

text \<open>At \<open>INT_MAX\<close> the increment of the exit counter, or of the return counter after
  it, is a signed overflow.\<close>

lemma op_masked_exit_overflow:
  assumes "m_mask_stack st \<noteq> []"
    and "mask_value (last (m_mask_stack st)) = WideBool q"
    and "length q = m_vector_width st"
    and "m_alloca_for_modified_mask_stack st \<noteq> []"
    and "memory st (hd (m_alloca_for_modified_mask_stack st)) = WideBool s"
    and "length s = m_vector_width st"
    and "memory st (last (m_alloca_for_modified_mask_stack st)) = WideBool f"
    and "length f = m_vector_width st"
    and "m_masked_return_count_stack st \<noteq> []"
    and "m_masked_exit_count st = INT_MAX \<or> last (m_masked_return_count_stack st) = INT_MAX"
  shows "op_masked_exit st = Inl UndefinedBehaviour"
proof -
  have len: "length (lanes_clear s q) = m_vector_width st"
    "length (lanes_clear s (lanes_complement q)) = m_vector_width st"
    using assms(3,6) by (simp_all add: length_lanes_clear length_lanes_complement)
  show ?thesis
  proof (cases "hd (m_alloca_for_modified_mask_stack st)
      = last (m_alloca_for_modified_mask_stack st)")
    case True
    with assms len show ?thesis
      by (auto simp: op_masked_exit_def Let_def op_load_def wide_constant_bool_def
          store_masking_disabled_eq CreateStore_def increment_int_def
          select_clear_n select_clear_negated)
  next
    case False
    with assms show ?thesis
      by (auto simp: op_masked_exit_def Let_def op_load_def wide_constant_bool_def
          store_masking_disabled_eq CreateStore_def increment_int_def
          select_clear_n select_clear_negated)
  qed
qed

text \<open>
  C4. \<open>op_masked_exit\<close> clears the lanes of the current predicate from the shader's slot
  (the first function context's) and from the innermost function's slot, adds 1 to the
  exit counter and 1 to the innermost return counter, and changes nothing else. With
  one function scope the two slots are one; the source updates the innermost slot
  separately only when more than one scope is open. Both counters are C++ \<open>int\<close>s: the
  statement is for counters below \<open>INT_MAX\<close>, where the increments are defined
  (\<open>op_masked_exit_overflow\<close> is the other case).
\<close>

theorem op_masked_exit_clears_both_slots:
  assumes "getType (mask_value (last (m_mask_stack st))) = type_wide_bool st"
    and "current_mask st = Inr (WideBool p)"
    and "m_alloca_for_modified_mask_stack st \<noteq> []"
    and "memory st (hd (m_alloca_for_modified_mask_stack st)) = WideBool s"
    and "length s = m_vector_width st"
    and "memory st (last (m_alloca_for_modified_mask_stack st)) = WideBool f"
    and "length f = m_vector_width st"
    and "m_masked_return_count_stack st \<noteq> []"
    and "m_masked_exit_count st < INT_MAX"
    and "last (m_masked_return_count_stack st) < INT_MAX"
  shows "op_masked_exit st =
       Inr (st\<lparr>memory := (memory st)
                (hd (m_alloca_for_modified_mask_stack st) := WideBool (lanes_clear s p),
                 last (m_alloca_for_modified_mask_stack st) := WideBool (lanes_clear f p)),
              m_masked_exit_count := m_masked_exit_count st + 1,
              m_masked_return_count_stack :=
                butlast (m_masked_return_count_stack st)
                  @ [last (m_masked_return_count_stack st) + 1]\<rparr>)
    \<and> (\<forall>i < m_vector_width st.
          lanes_clear s p ! i = (s ! i \<and> \<not> p ! i) \<and> lanes_clear f p ! i = (f ! i \<and> \<not> p ! i))"
proof -
  from assms(1,2) obtain q where q: "m_mask_stack st \<noteq> []"
      "mask_value (last (m_mask_stack st)) = WideBool q"
      "length q = m_vector_width st"
      "p = (if negate (last (m_mask_stack st)) then lanes_complement q else q)"
    by (rule current_mask_resolved)
  then have lp: "length p = m_vector_width st"
    by (simp add: length_lanes_complement)
  have "op_masked_exit st =
       Inr (st\<lparr>memory := (memory st)
                (hd (m_alloca_for_modified_mask_stack st) := WideBool (lanes_clear s p),
                 last (m_alloca_for_modified_mask_stack st) := WideBool (lanes_clear f p)),
              m_masked_exit_count := m_masked_exit_count st + 1,
              m_masked_return_count_stack :=
                butlast (m_masked_return_count_stack st)
                  @ [last (m_masked_return_count_stack st) + 1]\<rparr>)"
    using op_masked_exit_eq [OF q(1,2,3) assms(3,4,5,6,7,8,9,10)] q(4) by simp
  moreover have "\<forall>i < m_vector_width st.
          lanes_clear s p ! i = (s ! i \<and> \<not> p ! i) \<and> lanes_clear f p ! i = (f ! i \<and> \<not> p ! i)"
    using lp assms(5,7) by (simp add: nth_lanes_clear)
  ultimately show ?thesis by blast
qed

theorem op_masked_exit_clears_both_slots_witness:
  "current_mask (nested_scope [True, True, False, False] False)
       = Inr (WideBool [True, True, False, False])
   \<and> m_masked_exit_count (nested_scope [True, True, False, False] False) < INT_MAX
   \<and> last (m_masked_return_count_stack (nested_scope [True, True, False, False] False))
       < INT_MAX
   \<and> op_masked_exit (nested_scope [True, True, False, False] False)
       = Inr ((nested_scope [True, True, False, False] False)
           \<lparr>memory := (memory (nested_scope [True, True, False, False] False))
              (0 := WideBool [False, False, True, True],
               1 := WideBool [False, False, True, False]),
            m_masked_exit_count := 1,
            m_masked_return_count_stack := [0, 3]\<rparr>)
   \<and> current_mask (nested_scope [True, True, False, False] True)
       = Inr (WideBool [False, False, True, True])
   \<and> op_masked_exit (nested_scope [True, True, False, False] True)
       = Inr ((nested_scope [True, True, False, False] True)
           \<lparr>memory := (memory (nested_scope [True, True, False, False] True))
              (0 := WideBool [True, True, False, False],
               1 := WideBool [True, True, False, False]),
            m_masked_exit_count := 1,
            m_masked_return_count_stack := [0, 3]\<rparr>)"
  using
    op_masked_exit_clears_both_slots [of "nested_scope [True, True, False, False] False"
      "[True, True, False, False]" "[True, True, True, True]" "[True, True, True, False]"]
    op_masked_exit_clears_both_slots [of "nested_scope [True, True, False, False] True"
      "[False, False, True, True]" "[True, True, True, True]" "[True, True, True, False]"]
  by (simp add: nested_scope_def scope_with_def push_back_mask_def new_LLVM_Util_def
      type_wide_bool_def current_mask_def wide_constant_bool_def lanes_clear_def
      INT_MAX_def eval_nat_numeral)

section \<open>The deferred fold of return signals\<close>

lemma apply_return_to_mask_stack_eq:
  assumes "m_mask_stack st \<noteq> []"
    and "mask_value (last (m_mask_stack st)) = WideBool q"
    and "length q = m_vector_width st"
    and "m_masked_return_count_stack st \<noteq> []"
    and "m_alloca_for_modified_mask_stack st \<noteq> []"
    and "memory st (last (m_alloca_for_modified_mask_stack st)) = WideBool rs"
    and "length rs = m_vector_width st"
  shows "apply_return_to_mask_stack st =
     (if last (m_masked_return_count_stack st) > applied_return_mask_count (last (m_mask_stack st))
      then Inr (st\<lparr>m_mask_stack := butlast (m_mask_stack st) @
             [\<lparr>mask_value =
                  WideBool (if negate (last (m_mask_stack st))
                            then select_lanes rs q (replicate (m_vector_width st) True)
                            else select_lanes rs q rs),
                negate = negate (last (m_mask_stack st)),
                applied_return_mask_count = last (m_masked_return_count_stack st)\<rparr>]\<rparr>)
      else Inr st)"
  using assms
  by (simp add: apply_return_to_mask_stack_def Let_def op_load_def wide_constant_bool_def
      replace_back_def)

text \<open>A fold that went through leaves nothing for a second fold to do.\<close>

lemma apply_return_to_mask_stack_twice:
  assumes "apply_return_to_mask_stack st = Inr st'"
  shows "apply_return_to_mask_stack st' = Inr st'"
proof (cases "m_mask_stack st \<noteq> [] \<and> m_masked_return_count_stack st \<noteq> []
    \<and> last (m_masked_return_count_stack st) > applied_return_mask_count (last (m_mask_stack st))")
  case True
  with assms have "m_mask_stack st' \<noteq> [] \<and> m_masked_return_count_stack st' \<noteq> []
      \<and> applied_return_mask_count (last (m_mask_stack st')) = last (m_masked_return_count_stack st')"
    by (auto simp: apply_return_to_mask_stack_def Let_def replace_back_def
        split: if_splits sum.splits)
  then show ?thesis
    by (simp add: apply_return_to_mask_stack_def Let_def)
next
  case False
  with assms have "st' = st"
    by (auto simp: apply_return_to_mask_stack_def Let_def split: if_splits)
  with assms show ?thesis by simp
qed

text \<open>
  C6. When the function's return counter exceeds the top entry's applied count, the fold
  narrows the entry's current predicate to the lanes still set in the function's slot,
  sets the applied count to the counter and touches nothing else; when the counter does
  not exceed the applied count the fold changes nothing. Either way a second fold right
  after the first changes nothing.
\<close>

theorem apply_return_to_mask_stack_once:
  assumes "getType (mask_value (last (m_mask_stack st))) = type_wide_bool st"
    and "current_mask st = Inr (WideBool p)"
    and "m_masked_return_count_stack st \<noteq> []"
    and "m_alloca_for_modified_mask_stack st \<noteq> []"
    and "memory st (last (m_alloca_for_modified_mask_stack st)) = WideBool rs"
    and "length rs = m_vector_width st"
  shows "(last (m_masked_return_count_stack st) > applied_return_mask_count (last (m_mask_stack st))
          \<longrightarrow> (\<exists>st'. apply_return_to_mask_stack st = Inr st'
                 \<and> current_mask st' = Inr (WideBool (lanes_and p rs))
                 \<and> applied_return_mask_count (last (m_mask_stack st'))
                     = last (m_masked_return_count_stack st)
                 \<and> negate (last (m_mask_stack st')) = negate (last (m_mask_stack st))
                 \<and> butlast (m_mask_stack st') = butlast (m_mask_stack st)
                 \<and> st' = st\<lparr>m_mask_stack := m_mask_stack st'\<rparr>))
    \<and> (\<not> last (m_masked_return_count_stack st)
            > applied_return_mask_count (last (m_mask_stack st))
          \<longrightarrow> apply_return_to_mask_stack st = Inr st)
    \<and> (\<exists>st'. apply_return_to_mask_stack st = Inr st'
          \<and> apply_return_to_mask_stack st' = Inr st')"
proof -
  from assms(1,2) obtain q where q: "m_mask_stack st \<noteq> []"
      "mask_value (last (m_mask_stack st)) = WideBool q"
      "length q = m_vector_width st"
      "p = (if negate (last (m_mask_stack st)) then lanes_complement q else q)"
    by (rule current_mask_resolved)
  let ?new = "if negate (last (m_mask_stack st))
              then select_lanes rs q (replicate (m_vector_width st) True)
              else select_lanes rs q rs"
  let ?st' = "st\<lparr>m_mask_stack := butlast (m_mask_stack st) @
             [\<lparr>mask_value = WideBool ?new,
                negate = negate (last (m_mask_stack st)),
                applied_return_mask_count = last (m_masked_return_count_stack st)\<rparr>]\<rparr>"
  note eq = apply_return_to_mask_stack_eq [OF q(1,2,3) assms(3,4,5,6)]
  have len: "length ?new = m_vector_width st"
    using q(3) assms(6) by (simp add: length_select_lanes)
  have cur: "current_mask ?st' = Inr (WideBool (lanes_and p rs))"
    using current_mask_top [of ?st' ?new] len q(3,4) assms(6)
      select_narrow [of q "m_vector_width st" rs]
      select_narrow_negated [of q "m_vector_width st" rs]
    by simp
  have fold: "last (m_masked_return_count_stack st)
        > applied_return_mask_count (last (m_mask_stack st))
      \<longrightarrow> (\<exists>st'. apply_return_to_mask_stack st = Inr st'
                 \<and> current_mask st' = Inr (WideBool (lanes_and p rs))
                 \<and> applied_return_mask_count (last (m_mask_stack st'))
                     = last (m_masked_return_count_stack st)
                 \<and> negate (last (m_mask_stack st')) = negate (last (m_mask_stack st))
                 \<and> butlast (m_mask_stack st') = butlast (m_mask_stack st)
                 \<and> st' = st\<lparr>m_mask_stack := m_mask_stack st'\<rparr>)"
  proof
    assume "last (m_masked_return_count_stack st)
        > applied_return_mask_count (last (m_mask_stack st))"
    with eq have "apply_return_to_mask_stack st = Inr ?st'" by simp
    moreover have "applied_return_mask_count (last (m_mask_stack ?st'))
        = last (m_masked_return_count_stack st)"
      "negate (last (m_mask_stack ?st')) = negate (last (m_mask_stack st))"
      "butlast (m_mask_stack ?st') = butlast (m_mask_stack st)"
      "?st' = st\<lparr>m_mask_stack := m_mask_stack ?st'\<rparr>"
      by simp_all
    ultimately show "\<exists>st'. apply_return_to_mask_stack st = Inr st'
                 \<and> current_mask st' = Inr (WideBool (lanes_and p rs))
                 \<and> applied_return_mask_count (last (m_mask_stack st'))
                     = last (m_masked_return_count_stack st)
                 \<and> negate (last (m_mask_stack st')) = negate (last (m_mask_stack st))
                 \<and> butlast (m_mask_stack st') = butlast (m_mask_stack st)
                 \<and> st' = st\<lparr>m_mask_stack := m_mask_stack st'\<rparr>"
      using cur by blast
  qed
  have skip: "\<not> last (m_masked_return_count_stack st)
            > applied_return_mask_count (last (m_mask_stack st))
          \<longrightarrow> apply_return_to_mask_stack st = Inr st"
    using eq by simp
  obtain st' where r: "apply_return_to_mask_stack st = Inr st'"
    using eq by (cases "last (m_masked_return_count_stack st)
        > applied_return_mask_count (last (m_mask_stack st))") simp_all
  then have "apply_return_to_mask_stack st' = Inr st'"
    by (rule apply_return_to_mask_stack_twice)
  with r fold skip show ?thesis by blast
qed

theorem apply_return_to_mask_stack_once_witness:
  "current_mask (nested_scope [True, True, False, False] True)
       = Inr (WideBool [False, False, True, True])
   \<and> memory (nested_scope [True, True, False, False] True)
        (last (m_alloca_for_modified_mask_stack (nested_scope [True, True, False, False] True)))
       = WideBool [True, True, True, False]
   \<and> last (m_masked_return_count_stack (nested_scope [True, True, False, False] True)) = 2
   \<and> applied_return_mask_count
           (last (m_mask_stack (nested_scope [True, True, False, False] True))) = 0
   \<and> (\<exists>st'. apply_return_to_mask_stack (nested_scope [True, True, False, False] True) = Inr st'
         \<and> current_mask st' = Inr (WideBool [False, False, True, False])
         \<and> applied_return_mask_count (last (m_mask_stack st')) = 2
         \<and> apply_return_to_mask_stack st' = Inr st')"
proof -
  let ?st = "nested_scope [True, True, False, False] True"
  have h1: "getType (mask_value (last (m_mask_stack ?st))) = type_wide_bool ?st"
    and h2: "current_mask ?st = Inr (WideBool [False, False, True, True])"
    and h3: "m_masked_return_count_stack ?st \<noteq> []"
    and h4: "m_alloca_for_modified_mask_stack ?st \<noteq> []"
    and h5: "memory ?st (last (m_alloca_for_modified_mask_stack ?st))
        = WideBool [True, True, True, False]"
    and h6: "length [True, True, True, False] = m_vector_width ?st"
    and c: "last (m_masked_return_count_stack ?st) = 2"
    and a: "applied_return_mask_count (last (m_mask_stack ?st)) = 0"
    by (simp_all add: nested_scope_def scope_with_def push_back_mask_def new_LLVM_Util_def
        type_wide_bool_def current_mask_def wide_constant_bool_def eval_nat_numeral)
  note t = apply_return_to_mask_stack_once [OF h1 h2 h3 h4 h5 h6]
  from t [THEN conjunct1] c a
  obtain st' where s: "apply_return_to_mask_stack ?st = Inr st'"
      "current_mask st' =
         Inr (WideBool (lanes_and [False, False, True, True] [True, True, True, False]))"
      "applied_return_mask_count (last (m_mask_stack st')) = 2"
    by auto
  from t [THEN conjunct2, THEN conjunct2] s(1)
  have "apply_return_to_mask_stack st' = Inr st'"
    by auto
  with s h2 h5 c a show ?thesis
    by (simp add: lanes_and_def)
qed

section \<open>Masked store\<close>

text \<open>Choosing by a predicate is choosing the other way round by its complement.\<close>

lemma select_lanes_swap:
  "length a = length q \<Longrightarrow> length b = length q \<Longrightarrow>
   select_lanes q a b = select_lanes (lanes_complement q) b a"
  by (rule nth_equalityI)
    (auto simp: length_select_lanes nth_select_lanes lanes_complement_def)

lemma CreateSelect_swap:
  "CreateSelect (WideBool q) a b = CreateSelect (WideBool (lanes_complement q)) b a"
proof (cases a)
  case (WideBool x)
  then show ?thesis
  proof (cases b)
    case (WideBool y)
    with \<open>a = WideBool x\<close> show ?thesis
      using select_lanes_swap [of x q y] by (auto simp: length_lanes_complement)
  qed (simp_all add: length_lanes_complement)
next
  case (WideInt32 x)
  then show ?thesis
  proof (cases b)
    case (WideInt32 y)
    with \<open>a = WideInt32 x\<close> show ?thesis
      using select_lanes_swap [of x q y] by (auto simp: length_lanes_complement)
  qed (simp_all add: length_lanes_complement)
qed (cases b; simp)+

text \<open>With masking in force \<open>op_store\<close> stores the lane-wise choice, by the current
  predicate, between the new value and the value the location held.\<close>

lemma op_store_masked_eq:
  assumes "getType (mask_value (last (m_mask_stack st))) = type_wide_bool st"
    and "current_mask st = Inr (WideBool p)"
    and "isVectorTy val"
    and "m_enable_masking_stack st \<noteq> []"
    and "last (m_enable_masking_stack st)"
  shows "op_store val ptr st =
     (case CreateSelect (WideBool p) val (memory st ptr) of
        Inl e \<Rightarrow> Inl e
      | Inr blended \<Rightarrow> Inr (st\<lparr>memory := (memory st)(ptr := blended)\<rparr>))"
proof -
  from assms(1,2) obtain q where q: "m_mask_stack st \<noteq> []"
      "mask_value (last (m_mask_stack st)) = WideBool q"
      "length q = m_vector_width st"
      "p = (if negate (last (m_mask_stack st)) then lanes_complement q else q)"
    by (rule current_mask_resolved)
  show ?thesis
    using q assms(3,4,5) CreateSelect_swap [of q "memory st ptr" val]
    by (simp add: op_store_def Let_def op_load_def CreateStore_def split: sum.splits)
qed

text \<open>
  C5. \<open>op_store\<close> is a plain store when the mask scope stack is empty, or the value is
  not a vector, or the masking flag stack is empty or has \<open>false\<close> on top. Otherwise it
  loads the previous value and stores the lane-wise choice between the new and the
  previous value by the current (resolved) predicate; for wide integers lane \<open>i\<close> of the
  location afterwards is the new lane where the predicate holds and the previous lane
  where it does not. Storing 9,9,9,9 over 1,2,3,4 under predicate 1010 leaves 9,2,9,4.
\<close>

theorem op_store_masked:
  "(m_mask_stack st = [] \<or> isVectorTy val = False \<or> m_enable_masking_stack st = []
      \<or> last (m_enable_masking_stack st) = False
     \<longrightarrow> op_store val ptr st = Inr (st\<lparr>memory := (memory st)(ptr := val)\<rparr>))
   \<and> (\<forall>p. isVectorTy val \<and> m_enable_masking_stack st \<noteq> []
          \<and> last (m_enable_masking_stack st)
          \<and> getType (mask_value (last (m_mask_stack st))) = type_wide_bool st
          \<and> current_mask st = Inr (WideBool p)
        \<longrightarrow> op_store val ptr st =
             (case CreateSelect (WideBool p) val (memory st ptr) of
                Inl e \<Rightarrow> Inl e
              | Inr blended \<Rightarrow> Inr (st\<lparr>memory := (memory st)(ptr := blended)\<rparr>)))
   \<and> (\<forall>p v old. m_enable_masking_stack st \<noteq> [] \<and> last (m_enable_masking_stack st)
          \<and> getType (mask_value (last (m_mask_stack st))) = type_wide_bool st
          \<and> current_mask st = Inr (WideBool p)
          \<and> val = WideInt32 v \<and> length v = m_vector_width st
          \<and> memory st ptr = WideInt32 old \<and> length old = m_vector_width st
        \<longrightarrow> (\<exists>r. op_store val ptr st = Inr (st\<lparr>memory := (memory st)(ptr := WideInt32 r)\<rparr>)
               \<and> length r = m_vector_width st
               \<and> (\<forall>i < m_vector_width st. r ! i = (if p ! i then v ! i else old ! i))))
   \<and> op_store (WideInt32 [9, 9, 9, 9]) 2 (nested_scope [True, False, True, False] False)
       = Inr ((nested_scope [True, False, True, False] False)
           \<lparr>memory := (memory (nested_scope [True, False, True, False] False))
              (2 := WideInt32 [9, 2, 9, 4])\<rparr>)"
proof (intro conjI impI allI)
  assume "m_mask_stack st = [] \<or> isVectorTy val = False \<or> m_enable_masking_stack st = []
      \<or> last (m_enable_masking_stack st) = False"
  then show "op_store val ptr st = Inr (st\<lparr>memory := (memory st)(ptr := val)\<rparr>)"
    by (auto simp: op_store_def CreateStore_def)
next
  fix p
  assume "isVectorTy val \<and> m_enable_masking_stack st \<noteq> []
          \<and> last (m_enable_masking_stack st)
          \<and> getType (mask_value (last (m_mask_stack st))) = type_wide_bool st
          \<and> current_mask st = Inr (WideBool p)"
  then show "op_store val ptr st =
             (case CreateSelect (WideBool p) val (memory st ptr) of
                Inl e \<Rightarrow> Inl e
              | Inr blended \<Rightarrow> Inr (st\<lparr>memory := (memory st)(ptr := blended)\<rparr>))"
    using op_store_masked_eq [of st p val ptr] by simp
next
  fix p v old
  assume a: "m_enable_masking_stack st \<noteq> [] \<and> last (m_enable_masking_stack st)
          \<and> getType (mask_value (last (m_mask_stack st))) = type_wide_bool st
          \<and> current_mask st = Inr (WideBool p)
          \<and> val = WideInt32 v \<and> length v = m_vector_width st
          \<and> memory st ptr = WideInt32 old \<and> length old = m_vector_width st"
  then have "getType (mask_value (last (m_mask_stack st))) = type_wide_bool st"
    and "current_mask st = Inr (WideBool p)"
    by simp_all
  then obtain q where q: "length q = m_vector_width st"
      "p = (if negate (last (m_mask_stack st)) then lanes_complement q else q)"
    by (rule current_mask_resolved)
  then have lp: "length p = m_vector_width st"
    by (simp add: length_lanes_complement)
  have "op_store val ptr st =
      Inr (st\<lparr>memory := (memory st)(ptr := WideInt32 (select_lanes p v old))\<rparr>)"
    using op_store_masked_eq [of st p val ptr] a lp by simp
  moreover have "length (select_lanes p v old) = m_vector_width st"
    using a lp by (simp add: length_select_lanes)
  moreover have "\<forall>i < m_vector_width st.
      select_lanes p v old ! i = (if p ! i then v ! i else old ! i)"
    using a lp by (simp add: nth_select_lanes)
  ultimately show "\<exists>r. op_store val ptr st = Inr (st\<lparr>memory := (memory st)(ptr := WideInt32 r)\<rparr>)
               \<and> length r = m_vector_width st
               \<and> (\<forall>i < m_vector_width st. r ! i = (if p ! i then v ! i else old ! i))"
    by blast
next
  show "op_store (WideInt32 [9, 9, 9, 9]) 2 (nested_scope [True, False, True, False] False)
       = Inr ((nested_scope [True, False, True, False] False)
           \<lparr>memory := (memory (nested_scope [True, False, True, False] False))
              (2 := WideInt32 [9, 2, 9, 4])\<rparr>)"
    by (simp add: op_store_def nested_scope_def scope_with_def push_back_mask_def
        new_LLVM_Util_def op_load_def CreateStore_def)
qed

text \<open>The same store under a negated entry whose stored predicate is 0101, a scalar
  store, and a wide store with masking switched off.\<close>

theorem op_store_masked_witness:
  "current_mask (nested_scope [False, True, False, True] True)
       = Inr (WideBool [True, False, True, False])
   \<and> op_store (WideInt32 [9, 9, 9, 9]) 2 (nested_scope [False, True, False, True] True)
       = Inr ((nested_scope [False, True, False, True] True)
           \<lparr>memory := (memory (nested_scope [False, True, False, True] True))
              (2 := WideInt32 [9, 2, 9, 4])\<rparr>)
   \<and> op_store (Int32 7) 2 (nested_scope [False, True, False, True] True)
       = Inr ((nested_scope [False, True, False, True] True)
           \<lparr>memory := (memory (nested_scope [False, True, False, True] True))
              (2 := Int32 7)\<rparr>)
   \<and> op_store (WideInt32 [9, 9, 9, 9]) 2
         ((nested_scope [False, True, False, True] True)\<lparr>m_enable_masking_stack := [True, False]\<rparr>)
       = Inr ((nested_scope [False, True, False, True] True)
           \<lparr>m_enable_masking_stack := [True, False],
            memory := (memory (nested_scope [False, True, False, True] True))
              (2 := WideInt32 [9, 9, 9, 9])\<rparr>)"
  using
    op_store_masked [of "nested_scope [False, True, False, True] True" "WideInt32 [9, 9, 9, 9]" 2,
      THEN conjunct2, THEN conjunct1, rule_format, of "[True, False, True, False]"]
    op_store_masked [of "nested_scope [False, True, False, True] True" "Int32 7" 2,
      THEN conjunct1]
    op_store_masked [of "(nested_scope [False, True, False, True] True)\<lparr>m_enable_masking_stack := [True, False]\<rparr>"
      "WideInt32 [9, 9, 9, 9]" 2, THEN conjunct1]
  by (simp add: nested_scope_def scope_with_def push_back_mask_def new_LLVM_Util_def
      type_wide_bool_def current_mask_def wide_constant_bool_def eval_nat_numeral)

section \<open>The predicate/integer codec\<close>

text \<open>On the synthesized path lane \<open>i\<close> of the predicate is bit \<open>i\<close> of the integer; on the
  native path the 16 bits of the truncated integer are the 16 lanes. \<open>mask_as_int\<close>
  reads the lanes back as the bits of an \<open>i16\<close>, whatever the lane width, so it emits a
  well-typed cast only when there are 16 lanes.\<close>

lemma filtered_lanes:
  "map2 (\<noteq>) (map2 (AND) (replicate n (b :: 32 word)) (map (\<lambda>i. push_bit i 1) [0..<n]))
     (replicate n 0) = map (bit b) [0..<n]"
  by (rule nth_equalityI) (simp_all add: and_exp_eq_0_iff_not_bit)

lemma truncated_lanes:
  "map (bit (ucast (b :: 32 word) :: 16 word)) [0..<16] = map (bit b) [0..<16]"
  by (rule nth_equalityI) (simp_all add: bit_ucast_iff)

lemma int_as_mask_16:
  assumes "m_vector_width st = 16"
  shows "int_as_mask st (Int32 b) = Inr (WideBool (map (bit b) [0..<16]))"
  using assms filtered_lanes [of 16 b]
  by (simp add: int_as_mask_def type_int_def type_wide_bool_def lane_filter_def
      wide_constant_def op_ne_def truncated_lanes widen_value_def
      CreateTrunc_i32_to_i16_def CreateBitCast_i16_to_wide_bool_def)

lemma lanes_as_i16:
  "horner_sum of_bool (2 :: 16 word) (map (bit (b :: 32 word)) [0..<16]) = ucast b"
  by (rule bit_word_eqI) (simp add: bit_horner_sum_bit_word_iff bit_ucast_iff)

lemma mask_as_int_16:
  assumes "m_vector_width st = 16"
  shows "mask_as_int st (WideBool (map (bit b) [0..<16])) = Inr (Int32 (take_bit 16 b))"
  using assms
  by (simp add: mask_as_int_def type_wide_bool_def lanes_as_i16
      CreateBitCast_wide_bool_to_i16_def CreateZExt_i16_to_i32_def)
    (simp add: unsigned_ucast_eq)


lemma small_take_bit:
  assumes "unat (b :: 32 word) < 2 ^ 16"
  shows "take_bit 16 b = b"
proof -
  from assms have "b < 2 ^ 16"
    by (simp add: word_less_nat_alt)
  then have "b AND mask 16 = b"
    by (rule less_mask_eq)
  then show ?thesis
    by (simp add: take_bit_eq_mask)
qed

lemma mask_as_int_other_width:
  assumes "m_vector_width st \<noteq> 16"
  shows "mask_as_int st m = Inl AssertionFailed \<or> mask_as_int st m = Inl InvalidIR"
  using assms
  by (cases m) (auto simp: mask_as_int_def type_wide_bool_def CreateBitCast_wide_bool_to_i16_def)

text \<open>
  C7. As stated the claim fails for a lane width other than 16: \<open>mask_as_int\<close> casts the
  predicate to \<open>i16\<close> unconditionally, and the native path of \<open>int_as_mask\<close> casts an
  \<open>i16\<close> to the predicate type. Amended: with 16 lanes, for every integer bitmask \<open>b\<close>
  with \<open>0 \<le> b < 2^16\<close>, \<open>int_as_mask\<close> yields the predicate whose lane \<open>i\<close> is bit \<open>i\<close> of
  \<open>b\<close>, on the native and on the synthesized path, and \<open>mask_as_int\<close> of that predicate
  is \<open>b\<close>.
\<close>

theorem codec_round_trip:
  assumes "m_vector_width st = 16"
    and "unat b < 2 ^ 16"
  shows "\<exists>m. int_as_mask st (Int32 b) = Inr (WideBool m)
           \<and> length m = 16 \<and> (\<forall>i < 16. m ! i = bit b i)
           \<and> mask_as_int st (WideBool m) = Inr (Int32 b)"
proof -
  have "int_as_mask st (Int32 b) = Inr (WideBool (map (bit b) [0..<16]))"
    using assms(1) by (rule int_as_mask_16)
  moreover have "mask_as_int st (WideBool (map (bit b) [0..<16])) = Inr (Int32 b)"
    using mask_as_int_16 [OF assms(1), of b] small_take_bit [OF assms(2)] by simp
  moreover have "length (map (bit b) [0..<16]) = 16"
    and "\<forall>i < 16. map (bit b) [0..<16] ! i = bit b i"
    by simp_all
  ultimately show ?thesis by blast
qed

text \<open>With 8 lanes no predicate is turned back into an integer.\<close>

theorem codec_round_trip_counterexample:
  "\<not> (\<forall>st b. unat b < 2 ^ m_vector_width st \<longrightarrow>
         (\<exists>m. int_as_mask st (Int32 b) = Inr m \<and> mask_as_int st m = Inr (Int32 b)))"
proof
  assume a: "\<forall>st b. unat b < 2 ^ m_vector_width st \<longrightarrow>
         (\<exists>m. int_as_mask st (Int32 b) = Inr m \<and> mask_as_int st m = Inr (Int32 b))"
  have "m_vector_width (new_LLVM_Util 8 False) \<noteq> 16"
    by (simp add: new_LLVM_Util_def)
  then have m: "mask_as_int (new_LLVM_Util 8 False) x = Inl AssertionFailed
      \<or> mask_as_int (new_LLVM_Util 8 False) x = Inl InvalidIR" for x
    by (rule mask_as_int_other_width)
  have "unat (5 :: 32 word) < 2 ^ m_vector_width (new_LLVM_Util 8 False)"
    by (simp add: new_LLVM_Util_def)
  with a obtain x where "mask_as_int (new_LLVM_Util 8 False) x = Inr (Int32 5)"
    by blast
  with m [of x] show False by simp
qed

theorem codec_round_trip_witness:
  "m_vector_width (new_LLVM_Util 16 True) = 16 \<and> unat (40961 :: 32 word) < 2 ^ 16
   \<and> (\<exists>m. int_as_mask (new_LLVM_Util 16 True) (Int32 40961) = Inr (WideBool m)
          \<and> mask_as_int (new_LLVM_Util 16 True) (WideBool m) = Inr (Int32 40961))
   \<and> (\<exists>m. int_as_mask (new_LLVM_Util 16 False) (Int32 40961) = Inr (WideBool m)
          \<and> mask_as_int (new_LLVM_Util 16 False) (WideBool m) = Inr (Int32 40961))"
proof -
  have w: "m_vector_width (new_LLVM_Util 16 True) = 16"
      "m_vector_width (new_LLVM_Util 16 False) = 16"
    by (simp_all add: new_LLVM_Util_def)
  have b: "unat (40961 :: 32 word) < 2 ^ 16"
    by simp
  show ?thesis
    using w(1) b codec_round_trip [OF w(1) b] codec_round_trip [OF w(2) b]
    by blast
qed

end
